theory Spec2Isabelle
  imports Complex_Main "HOL-Library.Word"
begin

section \<open>Vocabulary shared by the motor controller and the bus target\<close>

text \<open>
  The repository's \<^verbatim>\<open>command.py\<close>, \<^verbatim>\<open>response.py\<close>, \<^verbatim>\<open>payload.py\<close> and
  \<^verbatim>\<open>core/component.py\<close> are imported by the two modules under verification. The
  verbs and outcomes below are the ones the two modules name. Python floats are only
  stored, compared with nothing and passed on, so they are modelled as \<^typ>\<open>real\<close>;
  the literal \<^verbatim>\<open>0.3\<close> is the number 3/10.
\<close>

type_synonym byte = "8 word"

datatype command = PING | STOP | GO | REQUEST | ENABLE | DISABLE | ACK | RESPONSE | ERROR

datatype response = OKAY | FAIL

datatype level = Debug | Info | Warning | Error

datatype exn = ValueError string | OtherException string

section \<open>motor\_controller.py\<close>

text \<open>
  The object state of \<^verbatim>\<open>MotorController\<close>: the four target speeds, the debug flag, the
  lines written to its own logger (severity and message template), and the two
  lifecycle flags that the base class \<^verbatim>\<open>Component\<close> keeps and exposes as the properties
  \<^verbatim>\<open>enabled\<close> and \<^verbatim>\<open>closed\<close>.
\<close>

record motor_controller =
  mc_pfwd :: real
  mc_sfwd :: real
  mc_paft :: real
  mc_saft :: real
  mc_debug :: bool
  mc_log :: "(level \<times> string) list"
  enabled :: bool
  closed :: bool

definition mc_info :: "string \<Rightarrow> motor_controller \<Rightarrow> motor_controller" where
  "mc_info msg m = m\<lparr>mc_log := mc_log m @ [(Info, msg)]\<rparr>"

text \<open>
  Modelled from the spec: \<^verbatim>\<open>core.component.Component\<close> (its \<^verbatim>\<open>enable\<close>,
  \<^verbatim>\<open>disable\<close> and \<^verbatim>\<open>close\<close>, called by the motor controller, are not among the
  sources). The spec gives the lifecycle as
  Disabled \<open>\<rightarrow>\<close> Enabled (enable), Enabled \<open>\<rightarrow>\<close> Disabled (disable), either state
  \<open>\<rightarrow>\<close> Closed (close, terminal, no transitions out).
\<close>

definition Component_enable :: "motor_controller \<Rightarrow> motor_controller" where
  "Component_enable m = (if closed m then m else m\<lparr>enabled := True\<rparr>)"

definition Component_disable :: "motor_controller \<Rightarrow> motor_controller" where
  "Component_disable m = m\<lparr>enabled := False\<rparr>"

definition Component_close :: "motor_controller \<Rightarrow> motor_controller" where
  "Component_close m = m\<lparr>closed := True\<rparr>"

text \<open>
  \<^verbatim>\<open>__init__\<close>: raises \<^verbatim>\<open>ValueError\<close> without a configuration, otherwise all speeds
  are zero and the component starts disabled (\<^verbatim>\<open>enabled=False\<close>). The configuration is
  only stored, so the constructor is polymorphic in it.
\<close>

definition mc_init :: "'cfg option \<Rightarrow> exn + motor_controller" where
  "mc_init config =
     (case config of
        None \<Rightarrow> Inl (ValueError ''no configuration provided.'')
      | Some _ \<Rightarrow>
          Inr \<lparr>mc_pfwd = 0, mc_sfwd = 0, mc_paft = 0, mc_saft = 0, mc_debug = False,
               mc_log = [(Info, ''initialising motor controller...''), (Info, ''ready.'')],
               enabled = False, closed = False\<rparr>)"

definition get_speeds :: "motor_controller \<Rightarrow> real \<times> real \<times> real \<times> real" where
  "get_speeds m = (mc_pfwd m, mc_sfwd m, mc_paft m, mc_saft m)"

definition stop :: "motor_controller \<Rightarrow> response \<times> motor_controller" where
  "stop m =
     (if \<not> enabled m then (FAIL, m)
      else
        let m1 = (if mc_debug m then mc_info ''STOP'' m else m)
        in (OKAY, m1\<lparr>mc_pfwd := 0, mc_sfwd := 0, mc_paft := 0, mc_saft := 0\<rparr>))"

definition go :: "real \<Rightarrow> real \<Rightarrow> real \<Rightarrow> real \<Rightarrow> motor_controller
    \<Rightarrow> response \<times> motor_controller" where
  "go pfwd sfwd paft saft m =
     (if \<not> enabled m then (FAIL, m)
      else
        let m1 = (if mc_debug m
                  then mc_info ''GO (pfwd={:.2f}, sfwd={:.2f}, paft={:.2f}, saft={:.2f})'' m
                  else m)
        in (OKAY, m1\<lparr>mc_pfwd := pfwd, mc_sfwd := sfwd, mc_paft := paft, mc_saft := saft\<rparr>))"

definition mc_enable :: "motor_controller \<Rightarrow> motor_controller" where
  "mc_enable m =
     (if \<not> enabled m then
        let m1 = Component_enable m
        in (if mc_debug m1 then mc_info ''enabled.'' m1 else m1)
      else m)"

definition mc_disable :: "motor_controller \<Rightarrow> motor_controller" where
  "mc_disable m =
     (if enabled m then
        let m1 = snd (stop m);
            m2 = Component_disable m1
        in (if mc_debug m2 then mc_info ''disabled.'' m2 else m2)
      else m)"

definition mc_close :: "motor_controller \<Rightarrow> motor_controller" where
  "mc_close m =
     (if \<not> closed m then
        let m1 = mc_disable m;
            m2 = Component_close m1
        in (if mc_debug m2 then mc_info ''closed.'' m2 else m2)
      else m)"

text \<open>A call of one of the five mutating methods, and a run of calls on one object.\<close>

datatype mc_op = Stop | Go real real real real | Enable | Disable | Close

fun apply_op :: "mc_op \<Rightarrow> motor_controller \<Rightarrow> motor_controller" where
  "apply_op Stop m = snd (stop m)"
| "apply_op (Go a b c d) m = snd (go a b c d m)"
| "apply_op Enable m = mc_enable m"
| "apply_op Disable m = mc_disable m"
| "apply_op Close m = mc_close m"

definition run_ops :: "mc_op list \<Rightarrow> motor_controller \<Rightarrow> motor_controller" where
  "run_ops ops m = fold apply_op ops m"

section \<open>i2c\_slave.py\<close>

subsection \<open>Imported collaborators\<close>

text \<open>
  A decoded \<^verbatim>\<open>Payload\<close>: the handler reads its \<^verbatim>\<open>code\<close> and its four speed fields.
\<close>

record payload =
  code :: nat
  pfwd :: real
  sfwd :: real
  paft :: real
  saft :: real

text \<open>
  What \<^verbatim>\<open>i2c_slave.py\<close> uses of the modules it imports, taken as parameters:
  the constant \<^verbatim>\<open>Payload.PACKET_SIZE\<close>; \<^verbatim>\<open>Payload.from_bytes\<close>, which returns a payload
  or raises; building a \<^verbatim>\<open>Payload\<close> from a verb and four floats followed by
  \<^verbatim>\<open>to_bytes()\<close>, which returns the frame or raises; \<^verbatim>\<open>Command.from_code\<close>, which
  returns a verb, returns something that is none of the verbs (\<open>None\<close> here) or
  raises; and Python's \<^verbatim>\<open>int(text, 0)\<close>. An exception is either a \<^verbatim>\<open>ValueError\<close>
  with its message or any other subclass of \<^verbatim>\<open>Exception\<close>.
\<close>

record collab =
  PACKET_SIZE :: nat
  from_bytes :: "byte list \<Rightarrow> exn + payload"
  to_bytes :: "command \<Rightarrow> real \<Rightarrow> real \<Rightarrow> real \<Rightarrow> real \<Rightarrow> exn + byte list"
  from_code :: "nat \<Rightarrow> exn + command option"
  parse_int :: "string \<Rightarrow> exn + int"

text \<open>The memory map constants of the class.\<close>

definition CMD_OFFSET :: nat where
  "CMD_OFFSET = 0"

definition RSP_OFFSET :: "collab \<Rightarrow> nat" where
  "RSP_OFFSET cd = PACKET_SIZE cd"

definition MEMORY_SIZE :: "collab \<Rightarrow> nat" where
  "MEMORY_SIZE cd = 2 * PACKET_SIZE cd"

subsection \<open>Object state and effects\<close>

text \<open>
  The effects of the bus target that leave the object, in the order they happen: a line
  handed to the logger (severity and message template), a slice assignment to the shared
  buffer (with the buffer's content after it, which is what the bus master can read from
  then on), the call of the decoder with the bytes it is given, a microsecond sleep,
  and \<^verbatim>\<open>sys.print_exception\<close>.
\<close>

datatype event =
    Log level string
  | MemWrite "byte list"
  | Decode "byte list"
  | Sleep_us nat
  | Print_exception exn

datatype irq = IRQ_END_READ | IRQ_END_WRITE

datatype address = AddrText string | AddrNum int

record config =
  cfg_i2c_id :: int
  cfg_i2c_address :: address

record i2c_slave =
  i2c_id :: int
  i2c_address :: int
  led :: bool
  i2c :: bool
  debug :: bool
  tx_count :: int
  mem :: "byte list"
  motor :: motor_controller
  trace :: "event list"

definition emit :: "event \<Rightarrow> i2c_slave \<Rightarrow> i2c_slave" where
  "emit e s = s\<lparr>trace := trace s @ [e]\<rparr>"

definition log :: "level \<Rightarrow> string \<Rightarrow> i2c_slave \<Rightarrow> i2c_slave" where
  "log l msg s = emit (Log l msg) s"

text \<open>
  Python's \<^verbatim>\<open>buf[a:b] = ys\<close> on a bytearray: both bounds are clipped to the length, an
  upper bound below the lower one counts as the lower one, and the slice is replaced by
  \<open>ys\<close> whatever its length. \<^verbatim>\<open>buf[a:b]\<close> reads with the same clipping.
\<close>

definition slice_assign :: "'a list \<Rightarrow> nat \<Rightarrow> nat \<Rightarrow> 'a list \<Rightarrow> 'a list" where
  "slice_assign xs a b ys =
     (let n = length xs;
          lo = min a n;
          hi = max lo (min b n)
      in take lo xs @ ys @ drop hi xs)"

definition slice :: "'a list \<Rightarrow> nat \<Rightarrow> nat \<Rightarrow> 'a list" where
  "slice xs a b = take (b - a) (drop a xs)"

definition mem_write :: "nat \<Rightarrow> nat \<Rightarrow> byte list \<Rightarrow> i2c_slave \<Rightarrow> i2c_slave" where
  "mem_write a b ys s =
     (let m = slice_assign (mem s) a b ys
      in emit (MemWrite m) (s\<lparr>mem := m\<rparr>))"

text \<open>\<^verbatim>\<open>'invalid sync header' in error_msg\<close>: substring search.\<close>

fun starts_with :: "string \<Rightarrow> string \<Rightarrow> bool" where
  "starts_with _ [] = True"
| "starts_with [] (_ # _) = False"
| "starts_with (x # xs) (y # ys) = (x = y \<and> starts_with xs ys)"

fun contains :: "string \<Rightarrow> string \<Rightarrow> bool" where
  "contains [] sub = (sub = [])"
| "contains (x # xs) sub = (starts_with (x # xs) sub \<or> contains xs sub)"

subsection \<open>Sending a response\<close>

text \<open>
  \<^verbatim>\<open>_send_response\<close>. Every caller passes a \<^verbatim>\<open>Command\<close>, which the type of the
  argument expresses, so the \<^verbatim>\<open>TypeError\<close> branch has no counterpart. Whatever is raised
  while the frame is built and encoded is caught here, logged and printed; the buffer is
  then not written.
\<close>

definition send_response ::
  "collab \<Rightarrow> command \<Rightarrow> real \<Rightarrow> real \<Rightarrow> real \<Rightarrow> real \<Rightarrow> i2c_slave \<Rightarrow> i2c_slave" where
  "send_response cd command f1 f2 f3 f4 s =
     (case to_bytes cd command f1 f2 f3 f4 of
        Inl e \<Rightarrow> emit (Print_exception e) (log Error ''{} raised sending response: {}'' s)
      | Inr response_bytes \<Rightarrow>
          let s1 = mem_write (RSP_OFFSET cd) (RSP_OFFSET cd + length response_bytes)
                     response_bytes s;
              s2 = (if debug s1
                    then log Debug ''response ready: {}'' (log Debug ''full memory: {}'' s1)
                    else s1)
          in emit (Sleep_us 50) s2)"

subsection \<open>Command handlers\<close>

definition handle_ping :: "collab \<Rightarrow> i2c_slave \<Rightarrow> i2c_slave" where
  "handle_ping cd s =
     (let s1 = (if debug s then log Info ''command: PING'' s else s)
      in send_response cd PING (3 / 10) (3 / 10) (3 / 10) (3 / 10) s1)"

definition handle_stop :: "collab \<Rightarrow> i2c_slave \<Rightarrow> i2c_slave" where
  "handle_stop cd s =
     (let s1 = (if debug s then log Info ''[{:05d}] command: STOP'' s else s);
          (r, m) = stop (motor s1);
          s2 = s1\<lparr>motor := m\<rparr>
      in if r = OKAY then
           (case get_speeds (motor s2) of
              (a, b, c, d) \<Rightarrow> send_response cd ACK a b c d s2)
         else send_response cd ERROR 0 0 0 0 s2)"

definition handle_go :: "collab \<Rightarrow> payload \<Rightarrow> i2c_slave \<Rightarrow> i2c_slave" where
  "handle_go cd p s =
     (let s1 = (if debug s
                then log Info
                  ''[{:05d}] command: GO (pfwd={:.2f}, sfwd={:.2f}, paft={:.2f}, saft={:.2f})'' s
                else s);
          (r, m) = go (pfwd p) (sfwd p) (paft p) (saft p) (motor s1);
          s2 = s1\<lparr>motor := m\<rparr>
      in if r = OKAY then
           (case get_speeds (motor s2) of
              (a, b, c, d) \<Rightarrow> send_response cd ACK a b c d s2)
         else send_response cd ERROR 0 0 0 0 s2)"

definition handle_request :: "collab \<Rightarrow> i2c_slave \<Rightarrow> i2c_slave" where
  "handle_request cd s =
     (let s1 = (if debug s then log Info ''command: REQUEST'' s else s);
          s2 = log Info ''command: REQUEST'' s1
      in case get_speeds (motor s2) of
           (a, b, c, d) \<Rightarrow> send_response cd RESPONSE a b c d s2)"

definition handle_enable :: "collab \<Rightarrow> i2c_slave \<Rightarrow> i2c_slave" where
  "handle_enable cd s =
     (let s1 = log Info ''command: ENABLE'' s;
          s2 = s1\<lparr>motor := mc_enable (motor s1)\<rparr>
      in send_response cd ACK 0 0 0 0 s2)"

definition handle_disable :: "collab \<Rightarrow> i2c_slave \<Rightarrow> i2c_slave" where
  "handle_disable cd s =
     (let s1 = log Info ''command: DISABLE'' s;
          s2 = s1\<lparr>motor := mc_disable (motor s1)\<rparr>
      in send_response cd ACK 0 0 0 0 s2)"

definition handle_error :: "collab \<Rightarrow> int \<Rightarrow> string \<Rightarrow> i2c_slave \<Rightarrow> i2c_slave" where
  "handle_error cd error_code message s =
     send_response cd ERROR (real_of_int error_code) 0 0 0 (log Error ''Error {}: {}'' s)"

subsection \<open>The IRQ handler\<close>

text \<open>
  The body of the \<^verbatim>\<open>try\<close> block. It either runs to its end or raises; what it has
  done to the object before raising stays done, so an exception comes with the state
  at the point of the raise.
\<close>

definition dispatch :: "collab \<Rightarrow> command option \<Rightarrow> payload \<Rightarrow> i2c_slave \<Rightarrow> i2c_slave" where
  "dispatch cd command cmd_payload s =
     (if command = Some PING then handle_ping cd s
      else if command = Some STOP then handle_stop cd s
      else if command = Some GO then handle_go cd cmd_payload s
      else if command = Some REQUEST then handle_request cd s
      else if command = Some ENABLE then handle_enable cd s
      else if command = Some DISABLE then handle_disable cd s
      else handle_error cd 1 ''unknown command: {}'' s)"

definition count_transaction :: "i2c_slave \<Rightarrow> i2c_slave" where
  "count_transaction s = (let s1 = s\<lparr>tx_count := tx_count s + 1\<rparr> in s1\<lparr>led := \<not> led s1\<rparr>)"

definition irq_try :: "collab \<Rightarrow> i2c_slave \<Rightarrow> exn \<times> i2c_slave + i2c_slave" where
  "irq_try cd s =
     (let cmd_bytes = slice (mem s) CMD_OFFSET (CMD_OFFSET + PACKET_SIZE cd);
          s0 = emit (Decode cmd_bytes) s
      in case from_bytes cd cmd_bytes of
           Inl e \<Rightarrow> Inl (e, s0)
         | Inr cmd_payload \<Rightarrow>
             let s1 = (if debug s0 then log Debug ''rx: {}'' s0 else s0)
             in case from_code cd (code cmd_payload) of
                  Inl e \<Rightarrow> Inl (e, s1)
                | Inr command \<Rightarrow> Inr (count_transaction (dispatch cd command cmd_payload s1)))"

definition clear_response :: "collab \<Rightarrow> i2c_slave \<Rightarrow> i2c_slave" where
  "clear_response cd s =
     mem_write (RSP_OFFSET cd) (RSP_OFFSET cd + PACKET_SIZE cd) (replicate (PACKET_SIZE cd) 0) s"

definition irq_handler :: "collab \<Rightarrow> irq set \<Rightarrow> i2c_slave \<Rightarrow> i2c_slave" where
  "irq_handler cd flags s =
     (let s1 =
        (if IRQ_END_WRITE \<in> flags then
           (case irq_try cd (clear_response cd s) of
              Inr s' \<Rightarrow> s'
            | Inl (ValueError error_msg, s') \<Rightarrow>
                if \<not> contains error_msg ''invalid sync header''
                then handle_error cd 2 error_msg (log Error ''payload error: {}'' s')
                else handle_error cd 3 error_msg (log Warning ''payload warning: {}'' s')
            | Inl (OtherException msg, s') \<Rightarrow>
                handle_error cd 4 msg
                  (emit (Print_exception (OtherException msg))
                     (log Error ''{} raised in irq handler: {}'' s')))
         else s)
      in if debug s1 \<and> IRQ_END_READ \<in> flags then log Debug ''master read response'' s1
         else s1)"

subsection \<open>Construction\<close>

text \<open>
  \<^verbatim>\<open>__init__\<close>: the nested configuration dictionary is taken as already looked up
  (bus id and address); a textual address is converted with \<^verbatim>\<open>int(text, 0)\<close>, which
  may raise. The buffer starts as \<^verbatim>\<open>bytearray(MEMORY_SIZE)\<close>, all zero, and the default
  ACK response is sent before the object is handed out.
\<close>

definition init :: "collab \<Rightarrow> config option \<Rightarrow> exn + i2c_slave" where
  "init cd cfg =
     (case cfg of
        None \<Rightarrow> Inl (ValueError ''missing configuration.'')
      | Some c \<Rightarrow>
          (case (case cfg_i2c_address c of
                   AddrText txt \<Rightarrow> parse_int cd txt
                 | AddrNum n \<Rightarrow> Inr n) of
             Inl e \<Rightarrow> Inl e
           | Inr addr \<Rightarrow>
               (case mc_init cfg of
                  Inl e \<Rightarrow> Inl e
                | Inr m \<Rightarrow>
                    let s = \<lparr>i2c_id = cfg_i2c_id c, i2c_address = addr, led = False,
                             i2c = False, debug = False, tx_count = 0,
                             mem = replicate (MEMORY_SIZE cd) 0, motor = m, trace = []\<rparr>
                    in Inr (log Info ''ready on bus {} at 0x{:02X}''
                              (send_response cd ACK 0 0 0 0 s)))))"

subsection \<open>What the bus master sees and does\<close>

text \<open>
  The two windows of a buffer, and the hardware storing a frame the master wrote into
  the command window (the master never writes elsewhere).
\<close>

definition cmd_window :: "collab \<Rightarrow> byte list \<Rightarrow> byte list" where
  "cmd_window cd m = slice m CMD_OFFSET (CMD_OFFSET + PACKET_SIZE cd)"

definition rsp_window :: "collab \<Rightarrow> byte list \<Rightarrow> byte list" where
  "rsp_window cd m = slice m (RSP_OFFSET cd) (RSP_OFFSET cd + PACKET_SIZE cd)"

definition master_write :: "collab \<Rightarrow> byte list \<Rightarrow> i2c_slave \<Rightarrow> i2c_slave" where
  "master_write cd frame s =
     s\<lparr>mem := slice_assign (mem s) CMD_OFFSET (CMD_OFFSET + PACKET_SIZE cd) frame\<rparr>"

definition mem_writes :: "event list \<Rightarrow> byte list list" where
  "mem_writes evs = concat (map (\<lambda>e. case e of MemWrite m \<Rightarrow> [m] | _ \<Rightarrow> []) evs)"

section \<open>A sample of the imported modules\<close>

text \<open>
  Modelled from the spec: the absent \<^verbatim>\<open>Payload\<close> and \<^verbatim>\<open>Command\<close> modules, of which the
  spec fixes a frame of constant size, a decoder that fails in one way on a bad framing
  header and in another way on other bad content, and an encoder. The class docstring
  of the bus target gives 23 bytes per frame. The sample frame is two sync bytes, one
  code byte and four fields of five bytes (a sign byte and the magnitude in
  thousandths, little-endian). Every theorem below holds for any collaborators; the
  sample only serves to run the model on concrete frames.
\<close>

definition enc_field :: "real \<Rightarrow> byte list" where
  "enc_field f =
     (let n = nat \<lfloor>\<bar>f\<bar> * 1000\<rfloor>
      in [if f < 0 then 1 else 0,
          of_nat (n mod 256), of_nat (n div 256 mod 256),
          of_nat (n div 65536 mod 256), of_nat (n div 16777216 mod 256)])"

definition dec_field :: "byte list \<Rightarrow> exn + real" where
  "dec_field bs =
     (if 1 < bs ! 0 then Inl (ValueError ''invalid sign byte'')
      else
        let n = unat (bs ! 1) + 256 * unat (bs ! 2) + 65536 * unat (bs ! 3)
                  + 16777216 * unat (bs ! 4)
        in Inr ((if bs ! 0 = 1 then - 1 else 1) * real n / 1000))"

fun code_of :: "command \<Rightarrow> nat" where
  "code_of PING = 1"
| "code_of STOP = 2"
| "code_of GO = 3"
| "code_of REQUEST = 4"
| "code_of ENABLE = 5"
| "code_of DISABLE = 6"
| "code_of ACK = 7"
| "code_of RESPONSE = 8"
| "code_of ERROR = 9"

definition sample_from_code :: "nat \<Rightarrow> exn + command option" where
  "sample_from_code n =
     (if 128 \<le> n then Inl (OtherException ''reserved code'')
      else Inr (if n = 1 then Some PING else if n = 2 then Some STOP
                else if n = 3 then Some GO else if n = 4 then Some REQUEST
                else if n = 5 then Some ENABLE else if n = 6 then Some DISABLE
                else if n = 7 then Some ACK else if n = 8 then Some RESPONSE
                else if n = 9 then Some ERROR else None))"

definition sample_to_bytes ::
  "command \<Rightarrow> real \<Rightarrow> real \<Rightarrow> real \<Rightarrow> real \<Rightarrow> exn + byte list" where
  "sample_to_bytes c f1 f2 f3 f4 =
     Inr ([122, 122, of_nat (code_of c)] @ enc_field f1 @ enc_field f2 @ enc_field f3
          @ enc_field f4)"

definition sample_from_bytes :: "byte list \<Rightarrow> exn + payload" where
  "sample_from_bytes bs =
     (if length bs \<noteq> 23 then Inl (ValueError ''invalid packet size'')
      else if take 2 bs \<noteq> [122, 122] then Inl (ValueError ''invalid sync header'')
      else
        (case dec_field (slice bs 3 8) of
           Inl e \<Rightarrow> Inl e
         | Inr f1 \<Rightarrow>
             (case dec_field (slice bs 8 13) of
                Inl e \<Rightarrow> Inl e
              | Inr f2 \<Rightarrow>
                  (case dec_field (slice bs 13 18) of
                     Inl e \<Rightarrow> Inl e
                   | Inr f3 \<Rightarrow>
                       (case dec_field (slice bs 18 23) of
                          Inl e \<Rightarrow> Inl e
                        | Inr f4 \<Rightarrow>
                            Inr \<lparr>code = unat (bs ! 2), pfwd = f1, sfwd = f2, paft = f3,
                                 saft = f4\<rparr>)))))"

definition sample_collab :: collab where
  "sample_collab =
     \<lparr>PACKET_SIZE = 23, from_bytes = sample_from_bytes, to_bytes = sample_to_bytes,
      from_code = sample_from_code,
      parse_int = (\<lambda>txt. Inl (ValueError ''invalid literal for int()''))\<rparr>"

text \<open>A frame as the sample encoder produces it, for use as a command.\<close>

definition frame :: "command \<Rightarrow> real \<Rightarrow> real \<Rightarrow> real \<Rightarrow> real \<Rightarrow> byte list" where
  "frame c f1 f2 f3 f4 =
     [122, 122, of_nat (code_of c)] @ enc_field f1 @ enc_field f2 @ enc_field f3
       @ enc_field f4"

text \<open>
  The bus target as \<^verbatim>\<open>__init__\<close> leaves it with the sample collaborators at address
  0x43 on bus 1 (the default ACK frame in the response window), with an empty record of
  effects, and the same object after the master has written a frame.
\<close>

definition sample_config :: config where
  "sample_config = \<lparr>cfg_i2c_id = 1, cfg_i2c_address = AddrNum 67\<rparr>"

definition booted :: i2c_slave where
  "booted =
     \<lparr>i2c_id = 1, i2c_address = 67, led = False, i2c = False, debug = False, tx_count = 0,
      mem = replicate 23 0 @ frame ACK 0 0 0 0,
      motor = \<lparr>mc_pfwd = 0, mc_sfwd = 0, mc_paft = 0, mc_saft = 0, mc_debug = False,
               mc_log = [(Info, ''initialising motor controller...''), (Info, ''ready.'')],
               enabled = False, closed = False\<rparr>,
      trace = []\<rparr>"

definition received :: "byte list \<Rightarrow> i2c_slave \<Rightarrow> i2c_slave" where
  "received bs s = master_write sample_collab bs s"

section \<open>Auxiliary notions for the proofs\<close>

text \<open>
  \<open>writes_within n s s'\<close>: \<open>s'\<close> continues the record of effects of \<open>s\<close> with at most
  \<open>n\<close> slice assignments, and its buffer is the one left by the last of them (the
  buffer of \<open>s\<close> if there is none).
\<close>

definition writes_within :: "nat \<Rightarrow> i2c_slave \<Rightarrow> i2c_slave \<Rightarrow> bool" where
  "writes_within n s s' \<longleftrightarrow>
     (\<exists>evs. trace s' = trace s @ evs \<and> length (mem_writes evs) \<le> n
            \<and> mem s' = last (mem s # mem_writes evs))"

text \<open>
  The motor controller is at rest when its four speeds are zero; the invariant of the
  controller is that it is enabled or at rest.
\<close>

definition at_rest :: "motor_controller \<Rightarrow> bool" where
  "at_rest m \<longleftrightarrow> get_speeds m = (0, 0, 0, 0)"

definition idle_inv :: "motor_controller \<Rightarrow> bool" where
  "idle_inv m \<longleftrightarrow> (enabled m \<or> at_rest m)"

text \<open>The object at the point where the handler dispatches on the decoded verb.\<close>

definition at_dispatch :: "collab \<Rightarrow> i2c_slave \<Rightarrow> i2c_slave" where
  "at_dispatch cd s =
     (let c = clear_response cd s;
          s0 = emit (Decode (cmd_window cd (mem c))) c
      in if debug s then log Debug ''rx: {}'' s0 else s0)"

text \<open>The sample object with its motor controller enabled.\<close>

definition running :: i2c_slave where
  "running = booted\<lparr>motor := mc_enable (motor booted)\<rparr>"

text \<open>
  Whether the frame in the command window gets as far as the dispatch: the decoder
  returns a payload and the lookup of its code returns.
\<close>

definition decodes :: "collab \<Rightarrow> i2c_slave \<Rightarrow> bool" where
  "decodes cd s =
     (case from_bytes cd (cmd_window cd (mem s)) of
        Inl e \<Rightarrow> False
      | Inr p \<Rightarrow> (case from_code cd (code p) of Inl e \<Rightarrow> False | Inr c \<Rightarrow> True))"

text \<open>
  The sample collaborators with an encoder that raises for the verb PING and encodes
  every other verb as before.
\<close>

definition ping_fault_collab :: collab where
  "ping_fault_collab =
     sample_collab\<lparr>to_bytes :=
       (\<lambda>c f1 f2 f3 f4.
          if c = PING then Inl (OtherException ''OverflowError'')
          else sample_to_bytes c f1 f2 f3 f4)\<rparr>"

text \<open>
  Two frames a master can write: 23 zero bytes, as a bus scan leaves them, and a frame
  with a good header whose code byte is 200.
\<close>

definition probe_frame :: "byte list" where
  "probe_frame = replicate 23 0"

definition reserved_frame :: "byte list" where
  "reserved_frame =
     [122, 122, 200] @ enc_field 0 @ enc_field 0 @ enc_field 0 @ enc_field 0"

section \<open>Field-wise effect of the basic operations\<close>

lemma emit_fields [simp]:
  "mem (emit e s) = mem s"
  "motor (emit e s) = motor s"
  "tx_count (emit e s) = tx_count s"
  "led (emit e s) = led s"
  "debug (emit e s) = debug s"
  "trace (emit e s) = trace s @ [e]"
  by (simp_all add: emit_def)

lemma log_fields [simp]:
  "mem (log l msg s) = mem s"
  "motor (log l msg s) = motor s"
  "tx_count (log l msg s) = tx_count s"
  "led (log l msg s) = led s"
  "debug (log l msg s) = debug s"
  "trace (log l msg s) = trace s @ [Log l msg]"
  by (simp_all add: log_def)

lemma mem_write_fields [simp]:
  "mem (mem_write a b ys s) = slice_assign (mem s) a b ys"
  "motor (mem_write a b ys s) = motor s"
  "tx_count (mem_write a b ys s) = tx_count s"
  "led (mem_write a b ys s) = led s"
  "debug (mem_write a b ys s) = debug s"
  "trace (mem_write a b ys s) = trace s @ [MemWrite (slice_assign (mem s) a b ys)]"
  by (simp_all add: mem_write_def Let_def)

lemma send_response_fields [simp]:
  "motor (send_response cd c f1 f2 f3 f4 s) = motor s"
  "tx_count (send_response cd c f1 f2 f3 f4 s) = tx_count s"
  "led (send_response cd c f1 f2 f3 f4 s) = led s"
  "debug (send_response cd c f1 f2 f3 f4 s) = debug s"
  by (simp_all add: send_response_def Let_def split: sum.splits)

lemma mem_send_response:
  "mem (send_response cd c f1 f2 f3 f4 s) =
     (case to_bytes cd c f1 f2 f3 f4 of
        Inl e \<Rightarrow> mem s
      | Inr rb \<Rightarrow> slice_assign (mem s) (RSP_OFFSET cd) (RSP_OFFSET cd + length rb) rb)"
  by (simp add: send_response_def Let_def split: sum.splits)

lemma slice_assign_response:
  assumes "length m = MEMORY_SIZE cd" and "length ys = PACKET_SIZE cd"
  shows "slice_assign m (RSP_OFFSET cd) (RSP_OFFSET cd + length ys) ys
           = take (PACKET_SIZE cd) m @ ys"
  using assms by (simp add: slice_assign_def Let_def RSP_OFFSET_def MEMORY_SIZE_def)

lemma windows_of_write:
  assumes "length m = MEMORY_SIZE cd" and "length ys = PACKET_SIZE cd"
  shows "rsp_window cd (take (PACKET_SIZE cd) m @ ys) = ys"
    and "cmd_window cd (take (PACKET_SIZE cd) m @ ys) = cmd_window cd m"
    and "length (take (PACKET_SIZE cd) m @ ys) = MEMORY_SIZE cd"
  using assms
  by (simp_all add: rsp_window_def cmd_window_def slice_def RSP_OFFSET_def CMD_OFFSET_def
      MEMORY_SIZE_def)

section \<open>Facts about the sample\<close>

lemma length_enc_field [simp]: "length (enc_field f) = 5"
  by (simp add: enc_field_def Let_def)

lemma length_frame [simp]: "length (frame c f1 f2 f3 f4) = 23"
  by (simp add: frame_def)

lemma sample_collab_simps [simp]:
  "PACKET_SIZE sample_collab = 23"
  "MEMORY_SIZE sample_collab = 46"
  "RSP_OFFSET sample_collab = 23"
  "to_bytes sample_collab c f1 f2 f3 f4 = Inr (frame c f1 f2 f3 f4)"
  "from_bytes sample_collab = sample_from_bytes"
  "from_code sample_collab = sample_from_code"
  by (simp_all add: sample_collab_def MEMORY_SIZE_def RSP_OFFSET_def sample_to_bytes_def
      frame_def)

lemma booted_fields [simp]:
  "mem booted = replicate 23 0 @ frame ACK 0 0 0 0"
  "trace booted = []"
  "tx_count booted = 0"
  "led booted = False"
  "debug booted = False"
  "\<not> enabled (motor booted)"
  "get_speeds (motor booted) = (0, 0, 0, 0)"
  by (simp_all add: booted_def get_speeds_def)

lemma received_fields [simp]:
  "length bs = 23 \<Longrightarrow> length (mem s) = 46 \<Longrightarrow> mem (received bs s) = bs @ drop 23 (mem s)"
  "trace (received bs s) = trace s"
  "tx_count (received bs s) = tx_count s"
  "led (received bs s) = led s"
  "debug (received bs s) = debug s"
  "motor (received bs s) = motor s"
  by (simp_all add: received_def master_write_def slice_assign_def CMD_OFFSET_def Let_def)

section \<open>Properties of the motor controller\<close>

lemma mc_info_fields [simp]:
  "enabled (mc_info msg m) = enabled m"
  "closed (mc_info msg m) = closed m"
  "mc_debug (mc_info msg m) = mc_debug m"
  "get_speeds (mc_info msg m) = get_speeds m"
  by (simp_all add: mc_info_def get_speeds_def)

lemma at_rest_after_stop: "enabled m \<Longrightarrow> at_rest (snd (stop m))"
  by (simp add: stop_def at_rest_def get_speeds_def Let_def)

lemma stop_keeps_lifecycle [simp]:
  "enabled (snd (stop m)) = enabled m"
  "closed (snd (stop m)) = closed m"
  "mc_debug (snd (stop m)) = mc_debug m"
  by (simp_all add: stop_def Let_def mc_info_def)

lemma idle_inv_stop: "idle_inv m \<Longrightarrow> idle_inv (snd (stop m))"
  by (cases "enabled m") (simp_all add: idle_inv_def at_rest_after_stop stop_def)

lemma idle_inv_go: "idle_inv m \<Longrightarrow> idle_inv (snd (go a b c d m))"
  by (auto simp add: idle_inv_def go_def Let_def mc_info_def)

lemma idle_inv_enable: "idle_inv m \<Longrightarrow> idle_inv (mc_enable m)"
  by (auto simp add: idle_inv_def mc_enable_def Component_enable_def Let_def at_rest_def
      get_speeds_def mc_info_def)

lemma at_rest_disable: "idle_inv m \<Longrightarrow> at_rest (mc_disable m)"
proof (cases "enabled m")
  case True
  then have "at_rest (snd (stop m))" by (rule at_rest_after_stop)
  then show ?thesis
    using True
    by (simp add: mc_disable_def Let_def Component_disable_def at_rest_def get_speeds_def
        mc_info_def)
next
  case False
  assume "idle_inv m"
  with False show ?thesis by (simp add: mc_disable_def idle_inv_def)
qed

lemma idle_inv_disable: "idle_inv m \<Longrightarrow> idle_inv (mc_disable m)"
  by (simp add: idle_inv_def at_rest_disable)

lemma idle_inv_close: "idle_inv m \<Longrightarrow> idle_inv (mc_close m)"
proof -
  assume inv: "idle_inv m"
  then have "at_rest (mc_disable m)" by (rule at_rest_disable)
  then have "at_rest (Component_close (mc_disable m))"
    by (simp add: Component_close_def at_rest_def get_speeds_def)
  then have "idle_inv (Component_close (mc_disable m))"
    and "idle_inv (mc_info ''closed.'' (Component_close (mc_disable m)))"
    by (simp_all add: idle_inv_def at_rest_def)
  with inv show ?thesis by (simp add: mc_close_def Let_def)
qed

lemma idle_inv_apply_op: "idle_inv m \<Longrightarrow> idle_inv (apply_op op m)"
  by (cases op) (simp_all add: idle_inv_stop idle_inv_go idle_inv_enable idle_inv_disable
      idle_inv_close)

lemma idle_inv_fold: "idle_inv m \<Longrightarrow> idle_inv (fold apply_op ops m)"
  by (induction ops arbitrary: m) (simp_all add: idle_inv_apply_op)

lemma idle_inv_init: "mc_init config = Inr m \<Longrightarrow> idle_inv m"
  by (auto simp add: mc_init_def idle_inv_def at_rest_def get_speeds_def split: option.splits)

lemma at_rest_enable_disable: "idle_inv m \<Longrightarrow> at_rest (mc_enable (mc_disable m))"
proof -
  assume "idle_inv m"
  then have "at_rest (mc_disable m)" by (rule at_rest_disable)
  then show ?thesis
    by (simp add: mc_enable_def Component_enable_def Let_def at_rest_def get_speeds_def
        mc_info_def)
qed

text \<open>
  C5. In every state reachable from construction by a sequence of stop, go, enable,
  disable and close calls, a disabled controller holds four zero speeds; and disabling
  such a controller and enabling it again leaves all four speeds zero, so re-enabling
  alone never resumes motion.
\<close>

theorem disabled_controller_at_rest:
  assumes "mc_init config = Inr m0"
  shows "(\<not> enabled (run_ops ops m0) \<longrightarrow> get_speeds (run_ops ops m0) = (0, 0, 0, 0))
       \<and> get_speeds (mc_enable (mc_disable (run_ops ops m0))) = (0, 0, 0, 0)"
proof -
  from assms have "idle_inv m0" by (rule idle_inv_init)
  then have inv: "idle_inv (run_ops ops m0)"
    unfolding run_ops_def by (rule idle_inv_fold)
  from inv have "\<not> enabled (run_ops ops m0) \<longrightarrow> at_rest (run_ops ops m0)"
    by (auto simp add: idle_inv_def)
  moreover from inv have "at_rest (mc_enable (mc_disable (run_ops ops m0)))"
    by (rule at_rest_enable_disable)
  ultimately show ?thesis by (simp add: at_rest_def)
qed

theorem disabled_controller_at_rest_witness:
  "mc_init (Some sample_config) = Inr (motor booted)
   \<and> \<not> enabled (run_ops [Enable, Go 1 1 (- 1) (- 1), Disable] (motor booted))
   \<and> get_speeds (run_ops [Enable, Go 1 1 (- 1) (- 1), Disable] (motor booted)) = (0, 0, 0, 0)
   \<and> get_speeds (mc_enable (mc_disable
        (run_ops [Enable, Go 1 1 (- 1) (- 1), Disable] (motor booted)))) = (0, 0, 0, 0)"
proof -
  have h: "mc_init (Some sample_config) = Inr (motor booted)"
    by (simp add: mc_init_def booted_def)
  have d: "\<not> enabled (run_ops [Enable, Go 1 1 (- 1) (- 1), Disable] (motor booted))"
    by (simp add: run_ops_def booted_def mc_enable_def mc_disable_def go_def stop_def
        Component_enable_def Component_disable_def Let_def)
  show ?thesis
    using h d disabled_controller_at_rest [OF h, of "[Enable, Go 1 1 (- 1) (- 1), Disable]"]
    by simp
qed

section \<open>Order of the buffer writes in the IRQ handler\<close>

lemma mem_writes_simps [simp]:
  "mem_writes [] = []"
  "mem_writes (MemWrite m # evs) = m # mem_writes evs"
  "mem_writes (Log l msg # evs) = mem_writes evs"
  "mem_writes (Decode bs # evs) = mem_writes evs"
  "mem_writes (Sleep_us n # evs) = mem_writes evs"
  "mem_writes (Print_exception e # evs) = mem_writes evs"
  "mem_writes (evs @ evs') = mem_writes evs @ mem_writes evs'"
  by (simp_all add: mem_writes_def)

lemma writes_within_refl: "writes_within n s s"
  by (simp add: writes_within_def)

lemma writes_within_same:
  "trace s' = trace s \<Longrightarrow> mem s' = mem s \<Longrightarrow> writes_within n s s'"
  by (simp add: writes_within_def)

lemma writes_within_trans:
  assumes "writes_within a s s1" and "writes_within b s1 s2"
  shows "writes_within (a + b) s s2"
proof -
  from assms(1) obtain e1 where e1: "trace s1 = trace s @ e1" "length (mem_writes e1) \<le> a"
    "mem s1 = last (mem s # mem_writes e1)"
    by (auto simp add: writes_within_def)
  from assms(2) obtain e2 where e2: "trace s2 = trace s1 @ e2" "length (mem_writes e2) \<le> b"
    "mem s2 = last (mem s1 # mem_writes e2)"
    by (auto simp add: writes_within_def)
  have "trace s2 = trace s @ (e1 @ e2)" using e1(1) e2(1) by simp
  moreover have "length (mem_writes (e1 @ e2)) \<le> a + b" using e1(2) e2(2) by simp
  moreover have "mem s2 = last (mem s # mem_writes (e1 @ e2))"
    using e1(3) e2(3) by (cases "mem_writes e2 = []") simp_all
  ultimately show ?thesis unfolding writes_within_def by blast
qed

lemma writes_within_quiet:
  assumes "trace s' = trace s @ evs" and "mem_writes evs = []" and "mem s' = mem s"
  shows "writes_within 0 s s'"
  using assms by (auto simp add: writes_within_def)

lemma writes_within_then_quiet:
  assumes "writes_within n s s1" and "writes_within 0 s1 s2"
  shows "writes_within n s s2"
  using writes_within_trans [OF assms] by simp

lemma writes_within_quiet_then:
  assumes "writes_within 0 s s1" and "writes_within n s1 s2"
  shows "writes_within n s s2"
  using writes_within_trans [OF assms] by simp

lemma quiet_emit:
  "mem_writes [e] = [] \<Longrightarrow> writes_within 0 s (emit e s)"
  by (rule writes_within_quiet [where evs = "[e]"]) simp_all

lemma quiet_log: "writes_within 0 s (log l msg s)"
  unfolding log_def by (rule quiet_emit) simp

lemma quiet_debug_log: "writes_within 0 s (if b then log l msg s else s)"
  by (simp add: quiet_log writes_within_refl)

lemma one_mem_write: "writes_within (Suc 0) s (mem_write a b ys s)"
  unfolding writes_within_def
  by (rule exI [where x = "[MemWrite (slice_assign (mem s) a b ys)]"]) simp

lemma writes_send_response: "writes_within (Suc 0) s (send_response cd c f1 f2 f3 f4 s)"
proof (cases "to_bytes cd c f1 f2 f3 f4")
  case (Inl e)
  have "writes_within 0 s
          (emit (Print_exception e) (log Error ''{} raised sending response: {}'' s))"
    by (rule writes_within_quiet
        [where evs = "[Log Error ''{} raised sending response: {}'', Print_exception e]"])
      simp_all
  then have "writes_within 0 s (send_response cd c f1 f2 f3 f4 s)"
    using Inl by (simp add: send_response_def)
  then show ?thesis by (auto simp add: writes_within_def)
next
  case (Inr rb)
  let ?s1 = "mem_write (RSP_OFFSET cd) (RSP_OFFSET cd + length rb) rb s"
  let ?s2 = "if debug ?s1
             then log Debug ''response ready: {}'' (log Debug ''full memory: {}'' ?s1)
             else ?s1"
  have w1: "writes_within (Suc 0) s ?s1" by (rule one_mem_write)
  have "writes_within 0 ?s1 ?s2"
    by (auto intro: writes_within_refl writes_within_then_quiet quiet_log)
  moreover have "writes_within 0 ?s2 (emit (Sleep_us 50) ?s2)"
    by (rule quiet_emit) simp
  ultimately have "writes_within 0 ?s1 (emit (Sleep_us 50) ?s2)"
    by (rule writes_within_then_quiet)
  with w1 have "writes_within (Suc 0) s (emit (Sleep_us 50) ?s2)"
    by (rule writes_within_then_quiet)
  then show ?thesis using Inr by (simp add: send_response_def Let_def)
qed

lemma writes_after_quiet:
  "writes_within 0 s s1 \<Longrightarrow> writes_within (Suc 0) s (send_response cd c f1 f2 f3 f4 s1)"
  by (rule writes_within_quiet_then [OF _ writes_send_response])

lemma quiet_motor: "writes_within 0 s (s\<lparr>motor := m\<rparr>)"
  by (rule writes_within_same) simp_all

lemma writes_handle_ping: "writes_within (Suc 0) s (handle_ping cd s)"
  unfolding handle_ping_def Let_def
  by (rule writes_after_quiet) (rule quiet_debug_log)

lemma writes_handle_error: "writes_within (Suc 0) s (handle_error cd n msg s)"
  unfolding handle_error_def
  by (rule writes_after_quiet) (rule quiet_log)

lemma writes_handle_request: "writes_within (Suc 0) s (handle_request cd s)"
  unfolding handle_request_def Let_def
  by (auto split: prod.splits
      intro!: writes_after_quiet writes_within_then_quiet [OF quiet_log quiet_log] quiet_log)

lemma writes_handle_enable: "writes_within (Suc 0) s (handle_enable cd s)"
  unfolding handle_enable_def Let_def
  by (rule writes_after_quiet) (rule writes_within_then_quiet [OF quiet_log quiet_motor])

lemma writes_handle_disable: "writes_within (Suc 0) s (handle_disable cd s)"
  unfolding handle_disable_def Let_def
  by (rule writes_after_quiet) (rule writes_within_then_quiet [OF quiet_log quiet_motor])

lemma writes_handle_stop: "writes_within (Suc 0) s (handle_stop cd s)"
  unfolding handle_stop_def Let_def
  by (auto split: prod.splits
      intro!: writes_after_quiet writes_within_then_quiet [OF quiet_log quiet_motor] quiet_motor)

lemma writes_handle_go: "writes_within (Suc 0) s (handle_go cd p s)"
  unfolding handle_go_def Let_def
  by (auto split: prod.splits
      intro!: writes_after_quiet writes_within_then_quiet [OF quiet_log quiet_motor] quiet_motor)

lemma writes_dispatch: "writes_within (Suc 0) s (dispatch cd c p s)"
  unfolding dispatch_def
  by (simp add: writes_handle_ping writes_handle_stop writes_handle_go writes_handle_request
      writes_handle_enable writes_handle_disable writes_handle_error)

lemma quiet_count: "writes_within 0 s (count_transaction s)"
  by (rule writes_within_same) (simp_all add: count_transaction_def Let_def)


lemma irq_try_cases:
  "irq_try cd s =
     (let s0 = emit (Decode (cmd_window cd (mem s))) s
      in case from_bytes cd (cmd_window cd (mem s)) of
           Inl e \<Rightarrow> Inl (e, s0)
         | Inr p \<Rightarrow>
             let s1 = (if debug s then log Debug ''rx: {}'' s0 else s0)
             in case from_code cd (code p) of
                  Inl e \<Rightarrow> Inl (e, s1)
                | Inr c \<Rightarrow> Inr (count_transaction (dispatch cd c p s1)))"
  by (simp add: irq_try_def cmd_window_def Let_def)

lemma writes_irq_try_ok:
  assumes "irq_try cd s = Inr s'"
  shows "writes_within (Suc 0) (emit (Decode (cmd_window cd (mem s))) s) s'"
proof -
  let ?s0 = "emit (Decode (cmd_window cd (mem s))) s"
  let ?s1 = "if debug s then log Debug ''rx: {}'' ?s0 else ?s0"
  from assms obtain p c where
    s': "s' = count_transaction (dispatch cd c p ?s1)"
    unfolding irq_try_cases Let_def by (auto split: sum.splits)
  have "writes_within 0 ?s0 ?s1" by (rule quiet_debug_log)
  then have "writes_within (Suc 0) ?s0 (dispatch cd c p ?s1)"
    by (rule writes_within_quiet_then) (rule writes_dispatch)
  then show ?thesis
    unfolding s' by (rule writes_within_then_quiet) (rule quiet_count)
qed

lemma writes_irq_try_raised:
  assumes "irq_try cd s = Inl (e, s')"
  shows "writes_within 0 (emit (Decode (cmd_window cd (mem s))) s) s'"
proof -
  let ?s0 = "emit (Decode (cmd_window cd (mem s))) s"
  from assms have "s' = ?s0 \<or> s' = (if debug s then log Debug ''rx: {}'' ?s0 else ?s0)"
    unfolding irq_try_cases Let_def by (auto split: sum.splits)
  then show ?thesis
    by (auto intro: writes_within_refl quiet_log)
qed

lemma writes_after_try:
  assumes "IRQ_END_WRITE \<in> flags"
  shows "writes_within (Suc 0)
           (emit (Decode (cmd_window cd (mem (clear_response cd s)))) (clear_response cd s))
           (irq_handler cd flags s)"
proof -
  let ?c = "clear_response cd s"
  let ?d = "emit (Decode (cmd_window cd (mem ?c))) ?c"
  let ?r = "case irq_try cd ?c of
              Inr s' \<Rightarrow> s'
            | Inl (ValueError error_msg, s') \<Rightarrow>
                if \<not> contains error_msg ''invalid sync header''
                then handle_error cd 2 error_msg (log Error ''payload error: {}'' s')
                else handle_error cd 3 error_msg (log Warning ''payload warning: {}'' s')
            | Inl (OtherException msg, s') \<Rightarrow>
                handle_error cd 4 msg
                  (emit (Print_exception (OtherException msg))
                     (log Error ''{} raised in irq handler: {}'' s'))"
  have r: "writes_within (Suc 0) ?d ?r"
  proof (cases "irq_try cd ?c")
    case (Inr s')
    then show ?thesis by (simp add: writes_irq_try_ok)
  next
    case (Inl a)
    then obtain e s' where a: "irq_try cd ?c = Inl (e, s')" by (cases a) simp
    then have q: "writes_within 0 ?d s'" by (rule writes_irq_try_raised)
    have step: "\<And>t n msg. writes_within 0 s' t \<Longrightarrow>
        writes_within (Suc 0) ?d (handle_error cd n msg t)"
      by (rule writes_within_quiet_then [OF writes_within_then_quiet [OF q] writes_handle_error])
    show ?thesis
    proof (cases e)
      case (ValueError msg)
      then show ?thesis using a by (simp add: step quiet_log)
    next
      case (OtherException msg)
      have "writes_within 0 s' (emit (Print_exception (OtherException msg))
                     (log Error ''{} raised in irq handler: {}'' s'))"
        by (rule writes_within_then_quiet [OF quiet_log quiet_emit]) simp
      then show ?thesis using a OtherException by (simp add: step)
    qed
  qed
  have "writes_within 0 ?r
          (if debug ?r \<and> IRQ_END_READ \<in> flags then log Debug ''master read response'' ?r
           else ?r)"
    by (rule quiet_debug_log)
  with r have "writes_within (Suc 0) ?d
          (if debug ?r \<and> IRQ_END_READ \<in> flags then log Debug ''master read response'' ?r
           else ?r)"
    by (rule writes_within_then_quiet)
  then show ?thesis using assms by (simp add: irq_handler_def Let_def)
qed

lemma clear_response_windows:
  assumes "length (mem s) = MEMORY_SIZE cd"
  shows "mem (clear_response cd s) = take (PACKET_SIZE cd) (mem s) @ replicate (PACKET_SIZE cd) 0"
    and "trace (clear_response cd s) = trace s @ [MemWrite (mem (clear_response cd s))]"
    and "rsp_window cd (mem (clear_response cd s)) = replicate (PACKET_SIZE cd) 0"
    and "cmd_window cd (mem (clear_response cd s)) = cmd_window cd (mem s)"
    and "length (mem (clear_response cd s)) = MEMORY_SIZE cd"
proof -
  have len: "length (replicate (PACKET_SIZE cd) (0::byte)) = PACKET_SIZE cd" by simp
  show m: "mem (clear_response cd s)
             = take (PACKET_SIZE cd) (mem s) @ replicate (PACKET_SIZE cd) 0"
    using slice_assign_response [OF assms len] by (simp add: clear_response_def)
  show "trace (clear_response cd s) = trace s @ [MemWrite (mem (clear_response cd s))]"
    by (simp add: clear_response_def)
  show "rsp_window cd (mem (clear_response cd s)) = replicate (PACKET_SIZE cd) 0"
    unfolding m by (rule windows_of_write(1) [OF assms len])
  show "cmd_window cd (mem (clear_response cd s)) = cmd_window cd (mem s)"
    unfolding m by (rule windows_of_write(2) [OF assms len])
  show "length (mem (clear_response cd s)) = MEMORY_SIZE cd"
    unfolding m by (rule windows_of_write(3) [OF assms len])
qed

text \<open>
  C1. On an end-of-write event the first thing the handler does is the slice assignment
  that zeroes the response window (the command window is left as it was); the decoder
  is called after it, on the command window of that buffer; and whatever follows
  contains at most one more buffer write, which leaves the final buffer. So from the
  clearing write up to the response write the response window holds only zero bytes.
\<close>

theorem response_window_zero_until_reply:
  assumes "IRQ_END_WRITE \<in> flags" and "length (mem s) = MEMORY_SIZE cd"
  shows "\<exists>m0 evs.
           trace (irq_handler cd flags s)
             = trace s @ MemWrite m0 # Decode (cmd_window cd m0) # evs
         \<and> rsp_window cd m0 = replicate (PACKET_SIZE cd) 0
         \<and> cmd_window cd m0 = cmd_window cd (mem s)
         \<and> length (mem_writes evs) \<le> 1
         \<and> mem (irq_handler cd flags s) = last (m0 # mem_writes evs)"
proof -
  let ?c = "clear_response cd s"
  let ?m0 = "mem ?c"
  from writes_after_try [OF assms(1), of cd s] obtain evs where
    evs: "trace (irq_handler cd flags s) = (trace ?c @ [Decode (cmd_window cd ?m0)]) @ evs"
      "length (mem_writes evs) \<le> Suc 0"
      "mem (irq_handler cd flags s) = last (?m0 # mem_writes evs)"
    by (auto simp add: writes_within_def)
  have "trace (irq_handler cd flags s)
          = trace s @ MemWrite ?m0 # Decode (cmd_window cd ?m0) # evs"
    using evs(1) clear_response_windows(2) [OF assms(2)] by simp
  moreover note clear_response_windows(3,4) [OF assms(2)]
  moreover have "length (mem_writes evs) \<le> 1" using evs(2) by simp
  ultimately show ?thesis using evs(3) by blast
qed

theorem response_window_zero_until_reply_witness:
  "IRQ_END_WRITE \<in> {IRQ_END_WRITE}
   \<and> length (mem (received (frame PING 0 0 0 0) booted)) = MEMORY_SIZE sample_collab
   \<and> (\<exists>m0 evs.
        trace (irq_handler sample_collab {IRQ_END_WRITE} (received (frame PING 0 0 0 0) booted))
          = trace (received (frame PING 0 0 0 0) booted)
              @ MemWrite m0 # Decode (cmd_window sample_collab m0) # evs
        \<and> rsp_window sample_collab m0 = replicate (PACKET_SIZE sample_collab) 0
        \<and> cmd_window sample_collab m0
            = cmd_window sample_collab (mem (received (frame PING 0 0 0 0) booted))
        \<and> length (mem_writes evs) \<le> 1
        \<and> mem (irq_handler sample_collab {IRQ_END_WRITE}
                 (received (frame PING 0 0 0 0) booted))
            = last (m0 # mem_writes evs))"
proof -
  have f: "IRQ_END_WRITE \<in> {IRQ_END_WRITE}" by simp
  have l: "length (mem (received (frame PING 0 0 0 0) booted)) = MEMORY_SIZE sample_collab"
    by simp
  from response_window_zero_until_reply [OF f l] f l show ?thesis by blast
qed

section \<open>What a handled command leaves in the buffer\<close>

lemma clear_response_fields [simp]:
  "motor (clear_response cd s) = motor s"
  "tx_count (clear_response cd s) = tx_count s"
  "led (clear_response cd s) = led s"
  "debug (clear_response cd s) = debug s"
  by (simp_all add: clear_response_def)

lemma at_dispatch_fields [simp]:
  "mem (at_dispatch cd s) = mem (clear_response cd s)"
  "motor (at_dispatch cd s) = motor s"
  "tx_count (at_dispatch cd s) = tx_count s"
  "led (at_dispatch cd s) = led s"
  "debug (at_dispatch cd s) = debug s"
  by (simp_all add: at_dispatch_def Let_def)

lemma count_transaction_fields [simp]:
  "mem (count_transaction s) = mem s"
  "motor (count_transaction s) = motor s"
  "tx_count (count_transaction s) = tx_count s + 1"
  "led (count_transaction s) = (\<not> led s)"
  "debug (count_transaction s) = debug s"
  "trace (count_transaction s) = trace s"
  by (simp_all add: count_transaction_def Let_def)

lemma irq_try_decoded:
  assumes "length (mem s) = MEMORY_SIZE cd"
    and "from_bytes cd (cmd_window cd (mem s)) = Inr p"
    and "from_code cd (code p) = Inr c"
  shows "irq_try cd (clear_response cd s)
           = Inr (count_transaction (dispatch cd c p (at_dispatch cd s)))"
  using assms clear_response_windows(4) [OF assms(1)]
  by (simp add: irq_try_cases at_dispatch_def Let_def)

lemma irq_handler_decoded:
  assumes "IRQ_END_WRITE \<in> flags" and "length (mem s) = MEMORY_SIZE cd"
    and "from_bytes cd (cmd_window cd (mem s)) = Inr p"
    and "from_code cd (code p) = Inr c"
  shows "mem (irq_handler cd flags s) = mem (dispatch cd c p (at_dispatch cd s))"
    and "motor (irq_handler cd flags s) = motor (dispatch cd c p (at_dispatch cd s))"
    and "tx_count (irq_handler cd flags s)
           = tx_count (dispatch cd c p (at_dispatch cd s)) + 1"
    and "led (irq_handler cd flags s) = (\<not> led (dispatch cd c p (at_dispatch cd s)))"
  using assms(1) irq_try_decoded [OF assms(2-4)]
  by (simp_all add: irq_handler_def Let_def)

lemma published:
  assumes "length (mem s) = MEMORY_SIZE cd"
    and "to_bytes cd c f1 f2 f3 f4 = Inr rb" and "length rb = PACKET_SIZE cd"
  shows "mem (send_response cd c f1 f2 f3 f4 s) = take (PACKET_SIZE cd) (mem s) @ rb"
    and "rsp_window cd (mem (send_response cd c f1 f2 f3 f4 s)) = rb"
    and "cmd_window cd (mem (send_response cd c f1 f2 f3 f4 s)) = cmd_window cd (mem s)"
    and "length (mem (send_response cd c f1 f2 f3 f4 s)) = MEMORY_SIZE cd"
proof -
  show m: "mem (send_response cd c f1 f2 f3 f4 s) = take (PACKET_SIZE cd) (mem s) @ rb"
    using slice_assign_response [OF assms(1,3)] assms(2) by (simp add: mem_send_response)
  show "rsp_window cd (mem (send_response cd c f1 f2 f3 f4 s)) = rb"
    unfolding m by (rule windows_of_write(1) [OF assms(1,3)])
  show "cmd_window cd (mem (send_response cd c f1 f2 f3 f4 s)) = cmd_window cd (mem s)"
    unfolding m by (rule windows_of_write(2) [OF assms(1,3)])
  show "length (mem (send_response cd c f1 f2 f3 f4 s)) = MEMORY_SIZE cd"
    unfolding m by (rule windows_of_write(3) [OF assms(1,3)])
qed

lemma not_published:
  assumes "to_bytes cd c f1 f2 f3 f4 = Inl e"
  shows "mem (send_response cd c f1 f2 f3 f4 s) = mem s"
    and "trace (send_response cd c f1 f2 f3 f4 s)
           = trace s @ [Log Error ''{} raised sending response: {}'', Print_exception e]"
  using assms by (simp_all add: send_response_def)

text \<open>
  C8. Sending a response whose frame has exactly \<^verbatim>\<open>PACKET_SIZE\<close> bytes into a buffer of
  \<^verbatim>\<open>MEMORY_SIZE\<close> bytes leaves the command window, bytes 0 to \<^verbatim>\<open>PACKET_SIZE\<close>, and the
  length of the buffer as they were; the response window then holds the frame.
\<close>

theorem send_response_keeps_command_window:
  assumes "length (mem s) = MEMORY_SIZE cd"
    and "to_bytes cd c f1 f2 f3 f4 = Inr rb" and "length rb = PACKET_SIZE cd"
  shows "cmd_window cd (mem (send_response cd c f1 f2 f3 f4 s)) = cmd_window cd (mem s)
       \<and> take (PACKET_SIZE cd) (mem (send_response cd c f1 f2 f3 f4 s))
           = take (PACKET_SIZE cd) (mem s)
       \<and> length (mem (send_response cd c f1 f2 f3 f4 s)) = length (mem s)
       \<and> rsp_window cd (mem (send_response cd c f1 f2 f3 f4 s)) = rb"
  using published [OF assms] assms(1) by (simp add: MEMORY_SIZE_def)

theorem send_response_keeps_command_window_witness:
  "length (mem (received (frame GO 1 1 (- 1) (- 1)) booted)) = MEMORY_SIZE sample_collab
   \<and> to_bytes sample_collab ACK 1 1 (- 1) (- 1) = Inr (frame ACK 1 1 (- 1) (- 1))
   \<and> length (frame ACK 1 1 (- 1) (- 1)) = PACKET_SIZE sample_collab
   \<and> cmd_window sample_collab
       (mem (send_response sample_collab ACK 1 1 (- 1) (- 1)
          (received (frame GO 1 1 (- 1) (- 1)) booted)))
       = frame GO 1 1 (- 1) (- 1)"
proof -
  let ?s = "received (frame GO 1 1 (- 1) (- 1)) booted"
  have l: "length (mem ?s) = MEMORY_SIZE sample_collab" by simp
  have t: "to_bytes sample_collab ACK 1 1 (- 1) (- 1) = Inr (frame ACK 1 1 (- 1) (- 1))"
    by simp
  have n: "length (frame ACK 1 1 (- 1) (- 1)) = PACKET_SIZE sample_collab" by simp
  have c: "cmd_window sample_collab (mem ?s) = frame GO 1 1 (- 1) (- 1)"
    by (simp add: cmd_window_def slice_def CMD_OFFSET_def)
  from send_response_keeps_command_window [OF l t n] l t n c show ?thesis by simp
qed

lemma dispatch_simps:
  "dispatch cd (Some PING) p s = handle_ping cd s"
  "dispatch cd (Some STOP) p s = handle_stop cd s"
  "dispatch cd (Some GO) p s = handle_go cd p s"
  "dispatch cd (Some REQUEST) p s = handle_request cd s"
  "dispatch cd (Some ENABLE) p s = handle_enable cd s"
  "dispatch cd (Some DISABLE) p s = handle_disable cd s"
  by (simp_all add: dispatch_def)

lemma handle_ping_fields:
  "motor (handle_ping cd s) = motor s"
  "mem (handle_ping cd s) = mem (send_response cd PING (3 / 10) (3 / 10) (3 / 10) (3 / 10) s)"
  by (simp_all add: handle_ping_def Let_def mem_send_response split: sum.splits)

lemma handle_request_fields:
  "motor (handle_request cd s) = motor s"
  "mem (handle_request cd s)
     = mem (send_response cd RESPONSE (mc_pfwd (motor s)) (mc_sfwd (motor s))
              (mc_paft (motor s)) (mc_saft (motor s)) s)"
  by (simp_all add: handle_request_def Let_def mem_send_response get_speeds_def
      split: sum.splits)

lemma handle_stop_rejected:
  assumes "\<not> enabled (motor s)"
  shows "motor (handle_stop cd s) = motor s"
    and "mem (handle_stop cd s) = mem (send_response cd ERROR 0 0 0 0 s)"
  using assms
  by (simp_all add: handle_stop_def Let_def stop_def mem_send_response split: sum.splits)

lemma handle_go_rejected:
  assumes "\<not> enabled (motor s)"
  shows "motor (handle_go cd p s) = motor s"
    and "mem (handle_go cd p s) = mem (send_response cd ERROR 0 0 0 0 s)"
  using assms
  by (simp_all add: handle_go_def Let_def go_def mem_send_response split: sum.splits)

lemma go_accepted:
  assumes "enabled m"
  shows "fst (go f1 f2 f3 f4 m) = OKAY"
    and "get_speeds (snd (go f1 f2 f3 f4 m)) = (f1, f2, f3, f4)"
    and "enabled (snd (go f1 f2 f3 f4 m))"
  using assms by (simp_all add: go_def Let_def get_speeds_def mc_info_def)

lemma handle_go_accepted:
  assumes "enabled (motor s)"
  shows "motor (handle_go cd p s) = snd (go (pfwd p) (sfwd p) (paft p) (saft p) (motor s))"
    and "mem (handle_go cd p s)
           = mem (send_response cd ACK (pfwd p) (sfwd p) (paft p) (saft p) s)"
  using assms
  by (simp_all add: handle_go_def Let_def go_def mem_send_response get_speeds_def mc_info_def
      split: sum.splits)

text \<open>
  C9. When the frame written by the master decodes to the verb PING, the handler leaves
  the motor controller exactly as it was and the response window holds the encoding of
  a PING frame with the four values 0.3.
\<close>

theorem ping_echoes_fixed_values:
  assumes "IRQ_END_WRITE \<in> flags" and "length (mem s) = MEMORY_SIZE cd"
    and "from_bytes cd (cmd_window cd (mem s)) = Inr p"
    and "from_code cd (code p) = Inr (Some PING)"
    and "to_bytes cd PING (3 / 10) (3 / 10) (3 / 10) (3 / 10) = Inr rb"
    and "length rb = PACKET_SIZE cd"
  shows "motor (irq_handler cd flags s) = motor s
       \<and> rsp_window cd (mem (irq_handler cd flags s)) = rb"
proof -
  let ?d = "at_dispatch cd s"
  have len: "length (mem ?d) = MEMORY_SIZE cd"
    using clear_response_windows(5) [OF assms(2)] by simp
  have "motor (irq_handler cd flags s) = motor (handle_ping cd ?d)"
    and m: "mem (irq_handler cd flags s) = mem (handle_ping cd ?d)"
    using irq_handler_decoded(1,2) [OF assms(1-4)] by (simp_all add: dispatch_simps)
  then have "motor (irq_handler cd flags s) = motor s"
    by (simp add: handle_ping_fields)
  moreover have "rsp_window cd (mem (irq_handler cd flags s)) = rb"
    unfolding m handle_ping_fields by (rule published(2) [OF len assms(5,6)])
  ultimately show ?thesis by simp
qed

lemma sample_decodes_frame:
  "sample_from_bytes (frame PING 0 0 0 0)
     = Inr \<lparr>code = 1, pfwd = 0, sfwd = 0, paft = 0, saft = 0\<rparr>"
  "sample_from_bytes (frame REQUEST 0 0 0 0)
     = Inr \<lparr>code = 4, pfwd = 0, sfwd = 0, paft = 0, saft = 0\<rparr>"
  "sample_from_bytes (frame STOP 0 0 0 0)
     = Inr \<lparr>code = 2, pfwd = 0, sfwd = 0, paft = 0, saft = 0\<rparr>"
  "sample_from_bytes (frame GO 1 1 (- 1) (- 1))
     = Inr \<lparr>code = 3, pfwd = 1, sfwd = 1, paft = - 1, saft = - 1\<rparr>"
  by (simp_all add: sample_from_bytes_def frame_def enc_field_def dec_field_def slice_def)

lemma sample_from_code_simps:
  "sample_from_code 1 = Inr (Some PING)"
  "sample_from_code 2 = Inr (Some STOP)"
  "sample_from_code 3 = Inr (Some GO)"
  "sample_from_code 4 = Inr (Some REQUEST)"
  by (simp_all add: sample_from_code_def)

lemma cmd_window_received:
  assumes "length bs = 23" and "length (mem s) = 46"
  shows "from_bytes sample_collab (cmd_window sample_collab (mem (received bs s)))
           = sample_from_bytes bs"
  using assms by (simp add: cmd_window_def slice_def CMD_OFFSET_def)

theorem ping_echoes_fixed_values_witness:
  "IRQ_END_WRITE \<in> {IRQ_END_WRITE}
   \<and> length (mem (received (frame PING 0 0 0 0) booted)) = MEMORY_SIZE sample_collab
   \<and> from_bytes sample_collab
        (cmd_window sample_collab (mem (received (frame PING 0 0 0 0) booted)))
       = Inr \<lparr>code = 1, pfwd = 0, sfwd = 0, paft = 0, saft = 0\<rparr>
   \<and> from_code sample_collab 1 = Inr (Some PING)
   \<and> to_bytes sample_collab PING (3 / 10) (3 / 10) (3 / 10) (3 / 10)
       = Inr (frame PING (3 / 10) (3 / 10) (3 / 10) (3 / 10))
   \<and> motor (irq_handler sample_collab {IRQ_END_WRITE} (received (frame PING 0 0 0 0) booted))
       = motor booted
   \<and> rsp_window sample_collab
        (mem (irq_handler sample_collab {IRQ_END_WRITE} (received (frame PING 0 0 0 0) booted)))
       = frame PING (3 / 10) (3 / 10) (3 / 10) (3 / 10)"
proof -
  let ?s = "received (frame PING 0 0 0 0) booted"
  let ?p = "\<lparr>code = 1, pfwd = 0, sfwd = 0, paft = 0, saft = 0\<rparr>"
  have f: "IRQ_END_WRITE \<in> {IRQ_END_WRITE}" by simp
  have l: "length (mem ?s) = MEMORY_SIZE sample_collab" by simp
  have d: "from_bytes sample_collab (cmd_window sample_collab (mem ?s)) = Inr ?p"
    by (subst cmd_window_received) (simp_all only: length_frame sample_decodes_frame,
        simp)
  have c: "from_code sample_collab (code ?p) = Inr (Some PING)"
    by (simp add: sample_from_code_def)
  have t: "to_bytes sample_collab PING (3 / 10) (3 / 10) (3 / 10) (3 / 10)
             = Inr (frame PING (3 / 10) (3 / 10) (3 / 10) (3 / 10))" by simp
  have n: "length (frame PING (3 / 10) (3 / 10) (3 / 10) (3 / 10)) = PACKET_SIZE sample_collab"
    by simp
  from ping_echoes_fixed_values [OF f l d c t n] f l d c t show ?thesis by simp
qed

lemma init_sample:
  "init sample_collab (Some sample_config)
     = Inr (booted\<lparr>trace := [MemWrite (replicate 23 0 @ frame ACK 0 0 0 0), Sleep_us 50,
                                Log Info ''ready on bus {} at 0x{:02X}'']\<rparr>)"
  by (simp add: init_def sample_config_def mc_init_def send_response_def Let_def booted_def
      mem_write_def slice_assign_def emit_def log_def)

text \<open>
  C10. An object that \<^verbatim>\<open>__init__\<close> hands out has, before any command was received
  (transaction counter zero), the encoding of an ACK frame with four zero values in its
  response window, provided that frame has \<^verbatim>\<open>PACKET_SIZE\<close> bytes; the command window is
  all zero and the buffer has \<^verbatim>\<open>MEMORY_SIZE\<close> bytes.
\<close>

theorem init_publishes_ack:
  assumes "init cd cfg = Inr s"
    and "to_bytes cd ACK 0 0 0 0 = Inr rb" and "length rb = PACKET_SIZE cd"
  shows "rsp_window cd (mem s) = rb
       \<and> cmd_window cd (mem s) = replicate (PACKET_SIZE cd) 0
       \<and> length (mem s) = MEMORY_SIZE cd
       \<and> tx_count s = 0"
proof -
  from assms(1) have "\<exists>bus addr m.
      s = log Info ''ready on bus {} at 0x{:02X}''
              (send_response cd ACK 0 0 0 0
                 \<lparr>i2c_id = bus, i2c_address = addr, led = False, i2c = False,
                  debug = False, tx_count = 0, mem = replicate (MEMORY_SIZE cd) 0,
                  motor = m, trace = []\<rparr>)"
    by (auto simp add: init_def Let_def split: option.splits sum.splits)
  then obtain bus addr m where
    s: "s = log Info ''ready on bus {} at 0x{:02X}''
              (send_response cd ACK 0 0 0 0
                 \<lparr>i2c_id = bus, i2c_address = addr, led = False, i2c = False,
                  debug = False, tx_count = 0, mem = replicate (MEMORY_SIZE cd) 0,
                  motor = m, trace = []\<rparr>)"
    by blast
  let ?s0 = "\<lparr>i2c_id = bus, i2c_address = addr, led = False, i2c = False,
              debug = False, tx_count = 0, mem = replicate (MEMORY_SIZE cd) (0::byte),
              motor = m, trace = []\<rparr>"
  have len: "length (mem ?s0) = MEMORY_SIZE cd" by simp
  have "cmd_window cd (mem ?s0) = replicate (PACKET_SIZE cd) 0"
    by (simp add: cmd_window_def slice_def CMD_OFFSET_def MEMORY_SIZE_def)
  with published(2-4) [OF len assms(2,3)] show ?thesis
    unfolding s by simp
qed

theorem init_publishes_ack_witness:
  "init sample_collab (Some sample_config)
     = Inr (booted\<lparr>trace := [MemWrite (replicate 23 0 @ frame ACK 0 0 0 0), Sleep_us 50,
                                Log Info ''ready on bus {} at 0x{:02X}'']\<rparr>)
   \<and> to_bytes sample_collab ACK 0 0 0 0 = Inr (frame ACK 0 0 0 0)
   \<and> length (frame ACK 0 0 0 0) = PACKET_SIZE sample_collab
   \<and> rsp_window sample_collab (mem booted) = frame ACK 0 0 0 0
   \<and> frame ACK 0 0 0 0 \<noteq> replicate 23 0"
proof -
  have t: "to_bytes sample_collab ACK 0 0 0 0 = Inr (frame ACK 0 0 0 0)" by simp
  have n: "length (frame ACK 0 0 0 0) = PACKET_SIZE sample_collab" by simp
  have z: "frame ACK 0 0 0 0 \<noteq> replicate 23 0"
  proof
    assume "frame ACK 0 0 0 0 = replicate 23 0"
    then have "hd (frame ACK 0 0 0 0) = hd (replicate 23 (0::byte))" by simp
    then show False by (simp add: frame_def)
  qed
  from init_publishes_ack [OF init_sample t n] init_sample t n z show ?thesis by simp
qed

section \<open>GO, REQUEST and rejected commands\<close>

lemma running_fields [simp]:
  "mem running = mem booted"
  "enabled (motor running)"
  by (simp_all add: running_def mc_enable_def Component_enable_def Let_def booted_def)

lemma go_handled:
  assumes "IRQ_END_WRITE \<in> flags" and "length (mem s) = MEMORY_SIZE cd"
    and "enabled (motor s)"
    and "from_bytes cd (cmd_window cd (mem s)) = Inr p"
    and "from_code cd (code p) = Inr (Some GO)"
    and "to_bytes cd ACK (pfwd p) (sfwd p) (paft p) (saft p) = Inr ra"
    and "length ra = PACKET_SIZE cd"
  shows "motor (irq_handler cd flags s)
           = snd (go (pfwd p) (sfwd p) (paft p) (saft p) (motor s))"
    and "mem (irq_handler cd flags s) = take (PACKET_SIZE cd) (mem s) @ ra"
    and "rsp_window cd (mem (irq_handler cd flags s)) = ra"
    and "length (mem (irq_handler cd flags s)) = MEMORY_SIZE cd"
proof -
  let ?d = "at_dispatch cd s"
  have len: "length (mem ?d) = MEMORY_SIZE cd"
    using clear_response_windows(5) [OF assms(2)] by simp
  have en: "enabled (motor ?d)" using assms(3) by simp
  have m: "mem (irq_handler cd flags s)
             = mem (send_response cd ACK (pfwd p) (sfwd p) (paft p) (saft p) ?d)"
    using irq_handler_decoded(1) [OF assms(1,2,4,5)]
    by (simp add: dispatch_simps handle_go_accepted(2) [OF en])
  show "motor (irq_handler cd flags s)
          = snd (go (pfwd p) (sfwd p) (paft p) (saft p) (motor s))"
    using irq_handler_decoded(2) [OF assms(1,2,4,5)]
    by (simp add: dispatch_simps handle_go_accepted(1) [OF en])
  show "mem (irq_handler cd flags s) = take (PACKET_SIZE cd) (mem s) @ ra"
    unfolding m published(1) [OF len assms(6,7)]
    using assms(2) by (simp add: clear_response_windows(1) [OF assms(2)] MEMORY_SIZE_def)
  show "rsp_window cd (mem (irq_handler cd flags s)) = ra"
    unfolding m by (rule published(2) [OF len assms(6,7)])
  show "length (mem (irq_handler cd flags s)) = MEMORY_SIZE cd"
    unfolding m by (rule published(4) [OF len assms(6,7)])
qed

lemma request_handled:
  assumes "IRQ_END_WRITE \<in> flags" and "length (mem s) = MEMORY_SIZE cd"
    and "from_bytes cd (cmd_window cd (mem s)) = Inr p"
    and "from_code cd (code p) = Inr (Some REQUEST)"
    and "get_speeds (motor s) = (f1, f2, f3, f4)"
    and "to_bytes cd RESPONSE f1 f2 f3 f4 = Inr rr"
    and "length rr = PACKET_SIZE cd"
  shows "motor (irq_handler cd flags s) = motor s"
    and "rsp_window cd (mem (irq_handler cd flags s)) = rr"
proof -
  let ?d = "at_dispatch cd s"
  have len: "length (mem ?d) = MEMORY_SIZE cd"
    using clear_response_windows(5) [OF assms(2)] by simp
  have sp: "mc_pfwd (motor s) = f1" "mc_sfwd (motor s) = f2" "mc_paft (motor s) = f3"
    "mc_saft (motor s) = f4"
    using assms(5) by (simp_all add: get_speeds_def)
  have m: "mem (irq_handler cd flags s) = mem (send_response cd RESPONSE f1 f2 f3 f4 ?d)"
    using irq_handler_decoded(1) [OF assms(1-4)]
    by (simp add: dispatch_simps handle_request_fields sp)
  show "motor (irq_handler cd flags s) = motor s"
    using irq_handler_decoded(2) [OF assms(1-4)]
    by (simp add: dispatch_simps handle_request_fields)
  show "rsp_window cd (mem (irq_handler cd flags s)) = rr"
    unfolding m by (rule published(2) [OF len assms(6,7)])
qed

text \<open>
  C7. A frame that decodes to GO with four values, handled while the motor controller
  is enabled: \<open>go\<close> returns OKAY and stores the four values as they are, the response
  window holds the encoding of ACK with those values, and a later frame that decodes to
  REQUEST, handled in any state in which the stored speeds are still those the GO left,
  puts the encoding of RESPONSE with the same four values into the response window and
  leaves the speeds as they are. The two encodings are assumed to have
  \<^verbatim>\<open>PACKET_SIZE\<close> bytes.
\<close>

theorem go_values_acknowledged_and_reported:
  assumes "IRQ_END_WRITE \<in> flags" and "length (mem s) = MEMORY_SIZE cd"
    and "enabled (motor s)"
    and "from_bytes cd (cmd_window cd (mem s)) = Inr p"
    and "from_code cd (code p) = Inr (Some GO)"
    and "to_bytes cd ACK (pfwd p) (sfwd p) (paft p) (saft p) = Inr ra"
    and "length ra = PACKET_SIZE cd"
    and "to_bytes cd RESPONSE (pfwd p) (sfwd p) (paft p) (saft p) = Inr rr"
    and "length rr = PACKET_SIZE cd"
  shows "fst (go (pfwd p) (sfwd p) (paft p) (saft p) (motor s)) = OKAY
       \<and> get_speeds (snd (go (pfwd p) (sfwd p) (paft p) (saft p) (motor s)))
           = (pfwd p, sfwd p, paft p, saft p)
       \<and> get_speeds (motor (irq_handler cd flags s)) = (pfwd p, sfwd p, paft p, saft p)
       \<and> rsp_window cd (mem (irq_handler cd flags s)) = ra
       \<and> (\<forall>s' flags' q.
             IRQ_END_WRITE \<in> flags' \<and> length (mem s') = MEMORY_SIZE cd
             \<and> get_speeds (motor s') = get_speeds (motor (irq_handler cd flags s))
             \<and> from_bytes cd (cmd_window cd (mem s')) = Inr q
             \<and> from_code cd (code q) = Inr (Some REQUEST)
           \<longrightarrow> rsp_window cd (mem (irq_handler cd flags' s')) = rr
             \<and> get_speeds (motor (irq_handler cd flags' s'))
                 = (pfwd p, sfwd p, paft p, saft p))"
proof -
  note g = go_accepted [OF assms(3), of "pfwd p" "sfwd p" "paft p" "saft p"]
  note h = go_handled [OF assms(1-7)]
  have sp: "get_speeds (motor (irq_handler cd flags s)) = (pfwd p, sfwd p, paft p, saft p)"
    unfolding h(1) by (rule g(2))
  have later: "rsp_window cd (mem (irq_handler cd flags' s')) = rr
      \<and> get_speeds (motor (irq_handler cd flags' s')) = (pfwd p, sfwd p, paft p, saft p)"
    if "IRQ_END_WRITE \<in> flags'" and "length (mem s') = MEMORY_SIZE cd"
      and "get_speeds (motor s') = get_speeds (motor (irq_handler cd flags s))"
      and "from_bytes cd (cmd_window cd (mem s')) = Inr q"
      and "from_code cd (code q) = Inr (Some REQUEST)"
    for s' flags' q
  proof -
    from that(3) sp have "get_speeds (motor s') = (pfwd p, sfwd p, paft p, saft p)" by simp
    from request_handled [OF that(1,2,4,5) this assms(8,9)] this show ?thesis by simp
  qed
  from g(1,2) sp h(3) later show ?thesis by blast
qed

theorem go_values_acknowledged_and_reported_witness:
  "IRQ_END_WRITE \<in> {IRQ_END_WRITE}
   \<and> length (mem (received (frame GO 1 1 (- 1) (- 1)) running)) = MEMORY_SIZE sample_collab
   \<and> enabled (motor (received (frame GO 1 1 (- 1) (- 1)) running))
   \<and> from_bytes sample_collab
        (cmd_window sample_collab (mem (received (frame GO 1 1 (- 1) (- 1)) running)))
       = Inr \<lparr>code = 3, pfwd = 1, sfwd = 1, paft = - 1, saft = - 1\<rparr>
   \<and> from_code sample_collab 3 = Inr (Some GO)
   \<and> from_bytes sample_collab
        (cmd_window sample_collab
          (mem (received (frame REQUEST 0 0 0 0)
             (irq_handler sample_collab {IRQ_END_WRITE}
                (received (frame GO 1 1 (- 1) (- 1)) running)))))
       = Inr \<lparr>code = 4, pfwd = 0, sfwd = 0, paft = 0, saft = 0\<rparr>
   \<and> from_code sample_collab 4 = Inr (Some REQUEST)
   \<and> rsp_window sample_collab
        (mem (irq_handler sample_collab {IRQ_END_WRITE}
           (received (frame GO 1 1 (- 1) (- 1)) running)))
       = frame ACK 1 1 (- 1) (- 1)
   \<and> rsp_window sample_collab
        (mem (irq_handler sample_collab {IRQ_END_WRITE}
           (received (frame REQUEST 0 0 0 0)
              (irq_handler sample_collab {IRQ_END_WRITE}
                 (received (frame GO 1 1 (- 1) (- 1)) running)))))
       = frame RESPONSE 1 1 (- 1) (- 1)"
proof -
  let ?s = "received (frame GO 1 1 (- 1) (- 1)) running"
  let ?p = "\<lparr>code = 3, pfwd = 1, sfwd = 1, paft = - 1, saft = - 1\<rparr>"
  let ?q = "\<lparr>code = 4, pfwd = 0, sfwd = 0, paft = 0, saft = 0\<rparr>"
  let ?s1 = "irq_handler sample_collab {IRQ_END_WRITE} ?s"
  let ?s' = "received (frame REQUEST 0 0 0 0) ?s1"
  have f: "IRQ_END_WRITE \<in> {IRQ_END_WRITE}" by simp
  have l: "length (mem ?s) = MEMORY_SIZE sample_collab" by simp
  have e: "enabled (motor ?s)" by simp
  have d: "from_bytes sample_collab (cmd_window sample_collab (mem ?s)) = Inr ?p"
    by (subst cmd_window_received) (simp_all only: length_frame sample_decodes_frame, simp)
  have c: "from_code sample_collab (code ?p) = Inr (Some GO)"
    by (simp add: sample_from_code_def)
  have ta: "to_bytes sample_collab ACK (pfwd ?p) (sfwd ?p) (paft ?p) (saft ?p)
              = Inr (frame ACK 1 1 (- 1) (- 1))" by simp
  have tr: "to_bytes sample_collab RESPONSE (pfwd ?p) (sfwd ?p) (paft ?p) (saft ?p)
              = Inr (frame RESPONSE 1 1 (- 1) (- 1))" by simp
  have na: "length (frame ACK 1 1 (- 1) (- 1)) = PACKET_SIZE sample_collab" by simp
  have nr: "length (frame RESPONSE 1 1 (- 1) (- 1)) = PACKET_SIZE sample_collab" by simp
  have l1: "length (mem ?s1) = 46"
    using go_handled(4) [OF f l e d c ta na] by simp
  have l': "length (mem ?s') = MEMORY_SIZE sample_collab"
    using l1 by simp
  have d': "from_bytes sample_collab (cmd_window sample_collab (mem ?s')) = Inr ?q"
    by (subst cmd_window_received) (simp_all only: length_frame sample_decodes_frame l1)
  have c': "from_code sample_collab (code ?q) = Inr (Some REQUEST)"
    by (simp add: sample_from_code_def)
  have m': "get_speeds (motor ?s') = get_speeds (motor ?s1)" by simp
  note main = go_values_acknowledged_and_reported [OF f l e d c ta na tr nr]
  from main have a: "rsp_window sample_collab (mem ?s1) = frame ACK 1 1 (- 1) (- 1)"
    by blast
  from main f l' m' d' c' have
    "rsp_window sample_collab (mem (irq_handler sample_collab {IRQ_END_WRITE} ?s'))
       = frame RESPONSE 1 1 (- 1) (- 1)"
    by blast
  with a f l e d c d' c' show ?thesis by simp
qed

lemma disabled_after_disable: "\<not> enabled (mc_disable m)"
  by (simp add: mc_disable_def Let_def Component_disable_def mc_info_def)

lemma speeds_after_disable:
  "get_speeds (mc_disable m) = (if enabled m then (0, 0, 0, 0) else get_speeds m)"
  by (simp add: mc_disable_def Let_def Component_disable_def mc_info_def get_speeds_def
      stop_def)

lemma rejected:
  assumes "\<not> enabled m"
  shows "stop m = (FAIL, m)" and "go f1 f2 f3 f4 m = (FAIL, m)"
  using assms by (simp_all add: stop_def go_def)

text \<open>
  C6, as the code has it. Once the motor controller has been disabled, \<open>stop\<close> and
  \<open>go\<close> return FAIL and change nothing; a frame that decodes to STOP or GO leaves the
  controller as the disable left it and puts the encoding of ERROR with four zero values
  into the response window. The speeds are those the disable left: all zero when it found
  the controller enabled (it stops first), the earlier values when it was disabled already.
\<close>

theorem stop_and_go_rejected_after_disable:
  assumes "IRQ_END_WRITE \<in> flags" and "length (mem s) = MEMORY_SIZE cd"
    and "motor s = mc_disable m"
    and "from_bytes cd (cmd_window cd (mem s)) = Inr p"
    and "from_code cd (code p) = Inr (Some c)"
    and "c = STOP \<or> c = GO"
    and "to_bytes cd ERROR 0 0 0 0 = Inr rb" and "length rb = PACKET_SIZE cd"
  shows "stop (motor s) = (FAIL, motor s)
       \<and> go f1 f2 f3 f4 (motor s) = (FAIL, motor s)
       \<and> motor (irq_handler cd flags s) = motor s
       \<and> get_speeds (motor (irq_handler cd flags s))
           = (if enabled m then (0, 0, 0, 0) else get_speeds m)
       \<and> rsp_window cd (mem (irq_handler cd flags s)) = rb"
proof -
  let ?d = "at_dispatch cd s"
  have off: "\<not> enabled (motor s)" unfolding assms(3) by (rule disabled_after_disable)
  then have off': "\<not> enabled (motor ?d)" by simp
  have len: "length (mem ?d) = MEMORY_SIZE cd"
    using clear_response_windows(5) [OF assms(2)] by simp
  have d: "motor (dispatch cd (Some c) p ?d) = motor s"
    "mem (dispatch cd (Some c) p ?d) = mem (send_response cd ERROR 0 0 0 0 ?d)"
    using assms(6) handle_stop_rejected [OF off'] handle_go_rejected [OF off']
    by (auto simp add: dispatch_simps)
  have m: "motor (irq_handler cd flags s) = motor s"
    using irq_handler_decoded(2) [OF assms(1,2,4,5)] d(1) by simp
  have "rsp_window cd (mem (irq_handler cd flags s)) = rb"
    using irq_handler_decoded(1) [OF assms(1,2,4,5)] d(2) published(2) [OF len assms(7,8)]
    by simp
  moreover have "get_speeds (motor (irq_handler cd flags s))
                   = (if enabled m then (0, 0, 0, 0) else get_speeds m)"
    unfolding m assms(3) by (rule speeds_after_disable)
  ultimately show ?thesis using rejected [OF off] m by simp
qed

theorem stop_and_go_rejected_after_disable_witness:
  "IRQ_END_WRITE \<in> {IRQ_END_WRITE}
   \<and> length (mem (received (frame STOP 0 0 0 0)
         (running\<lparr>motor := mc_disable (snd (go 1 1 (- 1) (- 1) (motor running)))\<rparr>)))
       = MEMORY_SIZE sample_collab
   \<and> from_bytes sample_collab
        (cmd_window sample_collab (mem (received (frame STOP 0 0 0 0)
           (running\<lparr>motor := mc_disable (snd (go 1 1 (- 1) (- 1) (motor running)))\<rparr>))))
       = Inr \<lparr>code = 2, pfwd = 0, sfwd = 0, paft = 0, saft = 0\<rparr>
   \<and> from_code sample_collab 2 = Inr (Some STOP)
   \<and> to_bytes sample_collab ERROR 0 0 0 0 = Inr (frame ERROR 0 0 0 0)
   \<and> enabled (snd (go 1 1 (- 1) (- 1) (motor running)))
   \<and> get_speeds (motor (irq_handler sample_collab {IRQ_END_WRITE}
        (received (frame STOP 0 0 0 0)
           (running\<lparr>motor := mc_disable (snd (go 1 1 (- 1) (- 1) (motor running)))\<rparr>))))
       = (0, 0, 0, 0)
   \<and> rsp_window sample_collab (mem (irq_handler sample_collab {IRQ_END_WRITE}
        (received (frame STOP 0 0 0 0)
           (running\<lparr>motor := mc_disable (snd (go 1 1 (- 1) (- 1) (motor running)))\<rparr>))))
       = frame ERROR 0 0 0 0"
proof -
  let ?m = "snd (go 1 1 (- 1) (- 1) (motor running))"
  let ?s = "received (frame STOP 0 0 0 0) (running\<lparr>motor := mc_disable ?m\<rparr>)"
  let ?p = "\<lparr>code = 2, pfwd = 0, sfwd = 0, paft = 0, saft = 0\<rparr>"
  have f: "IRQ_END_WRITE \<in> {IRQ_END_WRITE}" by simp
  have l: "length (mem ?s) = MEMORY_SIZE sample_collab" by simp
  have k: "motor ?s = mc_disable ?m" by simp
  have d: "from_bytes sample_collab (cmd_window sample_collab (mem ?s)) = Inr ?p"
    by (subst cmd_window_received) (simp_all only: length_frame sample_decodes_frame, simp_all)
  have c: "from_code sample_collab (code ?p) = Inr (Some STOP)"
    by (simp add: sample_from_code_def)
  have v: "STOP = STOP \<or> STOP = GO" by simp
  have t: "to_bytes sample_collab ERROR 0 0 0 0 = Inr (frame ERROR 0 0 0 0)" by simp
  have n: "length (frame ERROR 0 0 0 0) = PACKET_SIZE sample_collab" by simp
  have e: "enabled ?m" by (rule go_accepted(3)) simp
  note r = stop_and_go_rejected_after_disable [OF f l k d c v t n, of 0 0 0 0]
  from r have "get_speeds (motor (irq_handler sample_collab {IRQ_END_WRITE} ?s))
                 = (if enabled ?m then (0, 0, 0, 0) else get_speeds ?m)"
    by blast
  then have sp: "get_speeds (motor (irq_handler sample_collab {IRQ_END_WRITE} ?s))
                   = (0, 0, 0, 0)"
    by (simp only: e if_True)
  from r have w: "rsp_window sample_collab (mem (irq_handler sample_collab {IRQ_END_WRITE} ?s))
                    = frame ERROR 0 0 0 0"
    by blast
  have c2: "from_code sample_collab 2 = Inr (Some STOP)" using c by simp
  from f l d c2 t e sp w show ?thesis by blast
qed

text \<open>
  The claim as stated fails on the speeds: enable, GO(1, 1, -1, -1), disable, STOP. The
  STOP is rejected, but the stored speeds are no longer those from before the disable.
\<close>

theorem speeds_before_disable_not_kept:
  "get_speeds (run_ops [Enable, Go 1 1 (- 1) (- 1)] (motor booted)) = (1, 1, - 1, - 1)
   \<and> fst (stop (mc_disable (run_ops [Enable, Go 1 1 (- 1) (- 1)] (motor booted)))) = FAIL
   \<and> get_speeds (snd (stop (mc_disable (run_ops [Enable, Go 1 1 (- 1) (- 1)] (motor booted)))))
       \<noteq> get_speeds (run_ops [Enable, Go 1 1 (- 1) (- 1)] (motor booted))"
  by (simp add: run_ops_def booted_def mc_enable_def mc_disable_def go_def stop_def
      Component_enable_def Component_disable_def Let_def get_speeds_def)

section \<open>Frames that do not decode\<close>

lemma handler_keeps_count:
  "tx_count (handle_ping cd s) = tx_count s"
  "tx_count (handle_stop cd s) = tx_count s"
  "tx_count (handle_go cd p s) = tx_count s"
  "tx_count (handle_request cd s) = tx_count s"
  "tx_count (handle_enable cd s) = tx_count s"
  "tx_count (handle_disable cd s) = tx_count s"
  "tx_count (handle_error cd n msg s) = tx_count s"
  by (simp_all add: handle_ping_def handle_stop_def handle_go_def handle_request_def
      handle_enable_def handle_disable_def handle_error_def Let_def split: prod.splits)

lemma handler_keeps_led:
  "led (handle_ping cd s) = led s"
  "led (handle_stop cd s) = led s"
  "led (handle_go cd p s) = led s"
  "led (handle_request cd s) = led s"
  "led (handle_enable cd s) = led s"
  "led (handle_disable cd s) = led s"
  "led (handle_error cd n msg s) = led s"
  by (simp_all add: handle_ping_def handle_stop_def handle_go_def handle_request_def
      handle_enable_def handle_disable_def handle_error_def Let_def split: prod.splits)

lemma dispatch_keeps_count:
  "tx_count (dispatch cd c p s) = tx_count s"
  "led (dispatch cd c p s) = led s"
  by (simp_all add: dispatch_def handler_keeps_count handler_keeps_led)

lemma handle_error_fields:
  "motor (handle_error cd n msg s) = motor s"
  "mem (handle_error cd n msg s) = mem (send_response cd ERROR (real_of_int n) 0 0 0 s)"
  "debug (handle_error cd n msg s) = debug s"
  by (simp_all add: handle_error_def mem_send_response split: sum.splits)

lemma irq_try_raised:
  assumes "length (mem s) = MEMORY_SIZE cd"
  shows "from_bytes cd (cmd_window cd (mem s)) = Inl e \<Longrightarrow>
           \<exists>s'. irq_try cd (clear_response cd s) = Inl (e, s')
                \<and> mem s' = mem (clear_response cd s) \<and> tx_count s' = tx_count s
                \<and> led s' = led s \<and> motor s' = motor s"
    and "from_bytes cd (cmd_window cd (mem s)) = Inr p \<Longrightarrow> from_code cd (code p) = Inl e \<Longrightarrow>
           \<exists>s'. irq_try cd (clear_response cd s) = Inl (e, s')
                \<and> mem s' = mem (clear_response cd s) \<and> tx_count s' = tx_count s
                \<and> led s' = led s \<and> motor s' = motor s"
  using clear_response_windows(4) [OF assms]
  by (simp_all add: irq_try_cases Let_def)

lemma irq_handler_raised:
  assumes "IRQ_END_WRITE \<in> flags"
    and "irq_try cd (clear_response cd s) = Inl (e, s')"
  shows "tx_count (irq_handler cd flags s) = tx_count s'"
    and "led (irq_handler cd flags s) = led s'"
    and "motor (irq_handler cd flags s) = motor s'"
    and "mem (irq_handler cd flags s)
           = mem (send_response cd ERROR
                    (case e of
                       ValueError msg \<Rightarrow>
                         if contains msg ''invalid sync header'' then 3 else 2
                     | OtherException msg \<Rightarrow> 4) 0 0 0 s')"
  using assms
  by (cases e; simp add: irq_handler_def Let_def handler_keeps_count handler_keeps_led
      handle_error_fields mem_send_response split: sum.splits)+

text \<open>
  C4, as the code has it. The increment of the transaction counter and the toggle of
  the LED are the last two statements of the \<^verbatim>\<open>try\<close> block. They run once when the
  frame decodes and its code is looked up without an exception, whatever the handler of
  the verb then answers (an unknown verb and a rejected STOP or GO included); when the
  decoder or the lookup raises they are skipped, and counter and LED stay as they were.
\<close>

theorem counted_when_dispatched:
  assumes "IRQ_END_WRITE \<in> flags" and "length (mem s) = MEMORY_SIZE cd"
  shows "tx_count (irq_handler cd flags s)
           = (if decodes cd s then tx_count s + 1 else tx_count s)
       \<and> led (irq_handler cd flags s) = (if decodes cd s then \<not> led s else led s)"
proof (cases "from_bytes cd (cmd_window cd (mem s))")
  case (Inl e)
  then have no: "\<not> decodes cd s" by (simp add: decodes_def)
  from irq_try_raised(1) [OF assms(2) Inl] obtain s' where
    "irq_try cd (clear_response cd s) = Inl (e, s')" "tx_count s' = tx_count s"
    "led s' = led s"
    by blast
  with irq_handler_raised(1,2) [OF assms(1), of cd s e s'] no show ?thesis by simp
next
  case (Inr p)
  show ?thesis
  proof (cases "from_code cd (code p)")
    case (Inl e)
    with Inr have no: "\<not> decodes cd s" by (simp add: decodes_def)
    from irq_try_raised(2) [OF assms(2) Inr Inl] obtain s' where
      "irq_try cd (clear_response cd s) = Inl (e, s')" "tx_count s' = tx_count s"
      "led s' = led s"
      by blast
    with irq_handler_raised(1,2) [OF assms(1), of cd s e s'] no show ?thesis by simp
  next
    case c: (Inr c)
    with Inr have yes: "decodes cd s" by (simp add: decodes_def)
    from irq_handler_decoded(3,4) [OF assms Inr c] yes show ?thesis
      by (simp add: dispatch_keeps_count)
  qed
qed

lemma sample_rejects_probe:
  "sample_from_bytes probe_frame = Inl (ValueError ''invalid sync header'')"
proof -
  have "take 2 probe_frame = [0, 0]"
    by (simp add: probe_frame_def numeral_2_eq_2)
  then show ?thesis by (simp add: sample_from_bytes_def probe_frame_def)
qed

lemma length_probe_frame [simp]: "length probe_frame = 23"
  by (simp add: probe_frame_def)

lemma probe_not_decoded: "\<not> decodes sample_collab (received probe_frame booted)"
proof -
  have "from_bytes sample_collab (cmd_window sample_collab (mem (received probe_frame booted)))
          = Inl (ValueError ''invalid sync header'')"
    by (subst cmd_window_received) (simp_all only: length_probe_frame sample_rejects_probe,
        simp)
  then show ?thesis by (simp only: decodes_def sum.case not_False_eq_True)
qed

lemma ping_decoded: "decodes sample_collab (received (frame PING 0 0 0 0) booted)"
proof -
  have "from_bytes sample_collab
          (cmd_window sample_collab (mem (received (frame PING 0 0 0 0) booted)))
          = Inr \<lparr>code = 1, pfwd = 0, sfwd = 0, paft = 0, saft = 0\<rparr>"
    by (subst cmd_window_received) (simp_all only: length_frame sample_decodes_frame, simp)
  then show ?thesis by (simp add: decodes_def sample_from_code_def)
qed

theorem counted_when_dispatched_witness:
  "IRQ_END_WRITE \<in> {IRQ_END_WRITE}
   \<and> length (mem (received (frame PING 0 0 0 0) booted)) = MEMORY_SIZE sample_collab
   \<and> decodes sample_collab (received (frame PING 0 0 0 0) booted)
   \<and> tx_count (irq_handler sample_collab {IRQ_END_WRITE}
        (received (frame PING 0 0 0 0) booted)) = 1
   \<and> led (irq_handler sample_collab {IRQ_END_WRITE} (received (frame PING 0 0 0 0) booted))
   \<and> length (mem (received probe_frame booted)) = MEMORY_SIZE sample_collab
   \<and> \<not> decodes sample_collab (received probe_frame booted)
   \<and> tx_count (irq_handler sample_collab {IRQ_END_WRITE} (received probe_frame booted)) = 0
   \<and> \<not> led (irq_handler sample_collab {IRQ_END_WRITE} (received probe_frame booted))"
proof -
  let ?s = "received (frame PING 0 0 0 0) booted"
  let ?t = "received probe_frame booted"
  have f: "IRQ_END_WRITE \<in> {IRQ_END_WRITE}" by simp
  have l: "length (mem ?s) = MEMORY_SIZE sample_collab" by simp
  have k: "length (mem ?t) = MEMORY_SIZE sample_collab" by simp
  from counted_when_dispatched [OF f l] counted_when_dispatched [OF f k]
    ping_decoded probe_not_decoded f l k
  show ?thesis by simp
qed

text \<open>
  The claim as stated fails on a frame that does not decode: after the 23 zero bytes
  of a bus scan the counter is not incremented and the LED is not toggled.
\<close>

theorem probe_not_counted:
  "tx_count (irq_handler sample_collab {IRQ_END_WRITE} (received probe_frame booted))
     \<noteq> tx_count (received probe_frame booted) + 1
   \<and> led (irq_handler sample_collab {IRQ_END_WRITE} (received probe_frame booted))
       = led (received probe_frame booted)"
proof -
  let ?s = "received probe_frame booted"
  have d: "from_bytes sample_collab (cmd_window sample_collab (mem ?s))
             = Inl (ValueError ''invalid sync header'')"
    by (subst cmd_window_received) (simp_all only: length_probe_frame sample_rejects_probe,
        simp)
  have l: "length (mem ?s) = MEMORY_SIZE sample_collab" by simp
  from irq_try_raised(1) [OF l d] obtain s' where
    "irq_try sample_collab (clear_response sample_collab ?s)
       = Inl (ValueError ''invalid sync header'', s')"
    "tx_count s' = tx_count ?s" "led s' = led ?s"
    by blast
  with irq_handler_raised(1,2) [of "{IRQ_END_WRITE}" sample_collab ?s _ s']
  show ?thesis by simp
qed

section \<open>Faults and the log\<close>

lemma ping_fault_collab_simps [simp]:
  "PACKET_SIZE ping_fault_collab = 23"
  "MEMORY_SIZE ping_fault_collab = 46"
  "from_bytes ping_fault_collab = sample_from_bytes"
  "from_code ping_fault_collab = sample_from_code"
  "to_bytes ping_fault_collab PING f1 f2 f3 f4 = Inl (OtherException ''OverflowError'')"
  "to_bytes ping_fault_collab ERROR f1 f2 f3 f4 = Inr (frame ERROR f1 f2 f3 f4)"
  "cmd_window ping_fault_collab = cmd_window sample_collab"
  by (simp_all add: ping_fault_collab_def sample_collab_def MEMORY_SIZE_def cmd_window_def
      sample_to_bytes_def frame_def fun_eq_iff)

lemma length_reserved_frame [simp]: "length reserved_frame = 23"
  by (simp add: reserved_frame_def)

lemma sample_decodes_reserved:
  "sample_from_bytes reserved_frame
     = Inr \<lparr>code = 200, pfwd = 0, sfwd = 0, paft = 0, saft = 0\<rparr>"
  by (simp add: sample_from_bytes_def reserved_frame_def enc_field_def dec_field_def
      slice_def)

lemma frame_not_zero: "frame c f1 f2 f3 f4 \<noteq> replicate 23 0"
proof
  assume "frame c f1 f2 f3 f4 = replicate 23 0"
  then have "hd (frame c f1 f2 f3 f4) = hd (replicate 23 (0::byte))" by simp
  then show False by (simp add: frame_def)
qed

lemma internal_fault_handled:
  assumes "IRQ_END_WRITE \<in> flags" and "length (mem s) = MEMORY_SIZE cd"
    and "irq_try cd (clear_response cd s) = Inl (OtherException msg, s')"
    and "mem s' = mem (clear_response cd s)"
    and "to_bytes cd ERROR 4 0 0 0 = Inr rb" and "length rb = PACKET_SIZE cd"
  shows "rsp_window cd (mem (irq_handler cd flags s)) = rb"
    and "Log Error ''{} raised in irq handler: {}'' \<in> set (trace (irq_handler cd flags s))"
proof -
  have len: "length (mem s') = MEMORY_SIZE cd"
    unfolding assms(4) by (rule clear_response_windows(5) [OF assms(2)])
  have "mem (irq_handler cd flags s) = mem (send_response cd ERROR 4 0 0 0 s')"
    using irq_handler_raised(4) [OF assms(1,3)] by simp
  then show "rsp_window cd (mem (irq_handler cd flags s)) = rb"
    using published(2) [OF len assms(5,6)] by simp
  let ?r = "handle_error cd 4 msg
              (emit (Print_exception (OtherException msg))
                 (log Error ''{} raised in irq handler: {}'' s'))"
  have "writes_within (Suc 0) (log Error ''{} raised in irq handler: {}'' s') ?r"
    by (rule writes_within_quiet_then [OF quiet_emit writes_handle_error]) simp
  then obtain evs where "trace ?r = (trace s' @ [Log Error ''{} raised in irq handler: {}'']) @ evs"
    by (auto simp add: writes_within_def)
  then have "Log Error ''{} raised in irq handler: {}'' \<in> set (trace ?r)" by simp
  then show "Log Error ''{} raised in irq handler: {}'' \<in> set (trace (irq_handler cd flags s))"
    using assms(1,3) by (simp add: irq_handler_def Let_def)
qed

text \<open>
  C2, as the code has it. An exception other than \<^verbatim>\<open>ValueError\<close> raised by the decoder or
  by the lookup of the code is caught by the handler, logged at error severity and
  answered with ERROR carrying code 4: the response window holds that frame when it
  encodes to \<^verbatim>\<open>PACKET_SIZE\<close> bytes. An exception raised while a response is built and
  encoded never reaches the handler: \<^verbatim>\<open>_send_response\<close> catches it, logs and prints
  it, and writes nothing, so the buffer stays as it was and no error frame follows. The
  handler is a total function of the object: every raise of the model ends in one of
  these two places.
\<close>

theorem internal_fault_answered_with_code_4:
  assumes "IRQ_END_WRITE \<in> flags" and "length (mem s) = MEMORY_SIZE cd"
    and "from_bytes cd (cmd_window cd (mem s)) = Inl (OtherException msg)
         \<or> (\<exists>p. from_bytes cd (cmd_window cd (mem s)) = Inr p
                \<and> from_code cd (code p) = Inl (OtherException msg))"
    and "to_bytes cd ERROR 4 0 0 0 = Inr rb" and "length rb = PACKET_SIZE cd"
  shows "rsp_window cd (mem (irq_handler cd flags s)) = rb
       \<and> Log Error ''{} raised in irq handler: {}'' \<in> set (trace (irq_handler cd flags s))
       \<and> (\<forall>c f1 f2 f3 f4 e t.
             to_bytes cd c f1 f2 f3 f4 = Inl e
           \<longrightarrow> mem (send_response cd c f1 f2 f3 f4 t) = mem t
             \<and> trace (send_response cd c f1 f2 f3 f4 t)
                 = trace t @ [Log Error ''{} raised sending response: {}'',
                              Print_exception e])"
proof -
  from assms(3) irq_try_raised [OF assms(2)] obtain s' where
    "irq_try cd (clear_response cd s) = Inl (OtherException msg, s')"
    "mem s' = mem (clear_response cd s)"
    by blast
  from internal_fault_handled [OF assms(1,2) this assms(4,5)] not_published
  show ?thesis by blast
qed

theorem internal_fault_answered_with_code_4_witness:
  "IRQ_END_WRITE \<in> {IRQ_END_WRITE}
   \<and> length (mem (received reserved_frame booted)) = MEMORY_SIZE ping_fault_collab
   \<and> from_bytes ping_fault_collab
        (cmd_window ping_fault_collab (mem (received reserved_frame booted)))
       = Inr \<lparr>code = 200, pfwd = 0, sfwd = 0, paft = 0, saft = 0\<rparr>
   \<and> from_code ping_fault_collab 200 = Inl (OtherException ''reserved code'')
   \<and> to_bytes ping_fault_collab ERROR 4 0 0 0 = Inr (frame ERROR 4 0 0 0)
   \<and> length (frame ERROR 4 0 0 0) = PACKET_SIZE ping_fault_collab
   \<and> rsp_window ping_fault_collab
        (mem (irq_handler ping_fault_collab {IRQ_END_WRITE} (received reserved_frame booted)))
       = frame ERROR 4 0 0 0
   \<and> to_bytes ping_fault_collab PING (3 / 10) (3 / 10) (3 / 10) (3 / 10)
       = Inl (OtherException ''OverflowError'')
   \<and> mem (send_response ping_fault_collab PING (3 / 10) (3 / 10) (3 / 10) (3 / 10) booted)
       = mem booted"
proof -
  let ?s = "received reserved_frame booted"
  let ?p = "\<lparr>code = 200, pfwd = 0, sfwd = 0, paft = 0, saft = 0\<rparr>"
  have f: "IRQ_END_WRITE \<in> {IRQ_END_WRITE}" by simp
  have l: "length (mem ?s) = MEMORY_SIZE ping_fault_collab" by simp
  have d: "from_bytes ping_fault_collab (cmd_window ping_fault_collab (mem ?s)) = Inr ?p"
    using cmd_window_received [of reserved_frame booted]
    by (simp add: sample_decodes_reserved)
  have c: "from_code ping_fault_collab (code ?p) = Inl (OtherException ''reserved code'')"
    by (simp add: sample_from_code_def)
  have dc: "from_bytes ping_fault_collab (cmd_window ping_fault_collab (mem ?s))
              = Inl (OtherException ''reserved code'')
            \<or> (\<exists>p. from_bytes ping_fault_collab (cmd_window ping_fault_collab (mem ?s)) = Inr p
                   \<and> from_code ping_fault_collab (code p)
                       = Inl (OtherException ''reserved code''))"
    using d c by blast
  have t: "to_bytes ping_fault_collab ERROR 4 0 0 0 = Inr (frame ERROR 4 0 0 0)" by simp
  have n: "length (frame ERROR 4 0 0 0) = PACKET_SIZE ping_fault_collab" by simp
  have g: "to_bytes ping_fault_collab PING (3 / 10) (3 / 10) (3 / 10) (3 / 10)
             = Inl (OtherException ''OverflowError'')" by simp
  have c2: "from_code ping_fault_collab 200 = Inl (OtherException ''reserved code'')"
    using c by simp
  note r = internal_fault_answered_with_code_4 [OF f l dc t n]
  from r have w: "rsp_window ping_fault_collab
                    (mem (irq_handler ping_fault_collab {IRQ_END_WRITE} ?s))
                    = frame ERROR 4 0 0 0"
    by blast
  from r g have q: "mem (send_response ping_fault_collab PING (3 / 10) (3 / 10) (3 / 10)
                      (3 / 10) booted) = mem booted"
    by blast
  from f l d c2 t n w g q show ?thesis by blast
qed

text \<open>
  The claim as stated fails for a fault while the response is written: with an encoder
  that raises for PING, a PING frame is decoded and dispatched, the exception is
  swallowed by \<^verbatim>\<open>_send_response\<close>, and the response window stays all zero although
  the frame ERROR with code 4 could have been encoded.
\<close>

theorem fault_while_sending_not_answered:
  "to_bytes ping_fault_collab PING (3 / 10) (3 / 10) (3 / 10) (3 / 10)
     = Inl (OtherException ''OverflowError'')
   \<and> to_bytes ping_fault_collab ERROR 4 0 0 0 = Inr (frame ERROR 4 0 0 0)
   \<and> rsp_window ping_fault_collab
        (mem (irq_handler ping_fault_collab {IRQ_END_WRITE}
           (received (frame PING 0 0 0 0) booted)))
       = replicate 23 0
   \<and> rsp_window ping_fault_collab
        (mem (irq_handler ping_fault_collab {IRQ_END_WRITE}
           (received (frame PING 0 0 0 0) booted)))
       \<noteq> frame ERROR 4 0 0 0"
proof -
  let ?cd = ping_fault_collab
  let ?s = "received (frame PING 0 0 0 0) booted"
  let ?p = "\<lparr>code = 1, pfwd = 0, sfwd = 0, paft = 0, saft = 0\<rparr>"
  have f: "IRQ_END_WRITE \<in> {IRQ_END_WRITE}" by simp
  have l: "length (mem ?s) = MEMORY_SIZE ?cd" by simp
  have d: "from_bytes ?cd (cmd_window ?cd (mem ?s)) = Inr ?p"
    using cmd_window_received [of "frame PING 0 0 0 0" booted]
    by (simp add: sample_decodes_frame)
  have c: "from_code ?cd (code ?p) = Inr (Some PING)"
    by (simp add: sample_from_code_def)
  have g: "to_bytes ?cd PING (3 / 10) (3 / 10) (3 / 10) (3 / 10)
             = Inl (OtherException ''OverflowError'')" by simp
  have "mem (irq_handler ?cd {IRQ_END_WRITE} ?s) = mem (handle_ping ?cd (at_dispatch ?cd ?s))"
    using irq_handler_decoded(1) [OF f l d c] by (simp add: dispatch_simps)
  also have "\<dots> = mem (clear_response ?cd ?s)"
    by (simp add: handle_ping_fields not_published(1) [OF g])
  finally have "rsp_window ?cd (mem (irq_handler ?cd {IRQ_END_WRITE} ?s))
                  = replicate (PACKET_SIZE ?cd) 0"
    using clear_response_windows(3) [OF l] by simp
  then have z: "rsp_window ?cd (mem (irq_handler ?cd {IRQ_END_WRITE} ?s)) = replicate 23 0"
    by simp
  have t: "to_bytes ?cd ERROR 4 0 0 0 = Inr (frame ERROR 4 0 0 0)" by simp
  from z frame_not_zero [of ERROR 4 0 0 0]
  have "rsp_window ?cd (mem (irq_handler ?cd {IRQ_END_WRITE} ?s)) \<noteq> frame ERROR 4 0 0 0"
    by simp
  with g t z show ?thesis by blast
qed

lemma probe_cleared:
  "mem (clear_response sample_collab (received probe_frame booted))
     = probe_frame @ replicate 23 0"
  "trace (clear_response sample_collab (received probe_frame booted))
     = [MemWrite (probe_frame @ replicate 23 0)]"
proof -
  have l: "length (mem (received probe_frame booted)) = MEMORY_SIZE sample_collab" by simp
  show m: "mem (clear_response sample_collab (received probe_frame booted))
             = probe_frame @ replicate 23 0"
    using clear_response_windows(1) [OF l] by simp
  show "trace (clear_response sample_collab (received probe_frame booted))
          = [MemWrite (probe_frame @ replicate 23 0)]"
    using clear_response_windows(2) [OF l] unfolding m by simp
qed

lemma probe_raises:
  "irq_try sample_collab (clear_response sample_collab (received probe_frame booted))
     = Inl (ValueError ''invalid sync header'',
            emit (Decode probe_frame)
              (clear_response sample_collab (received probe_frame booted)))"
proof -
  have "cmd_window sample_collab (probe_frame @ replicate 23 0) = probe_frame"
    by (simp add: cmd_window_def slice_def CMD_OFFSET_def)
  then show ?thesis
    by (simp add: irq_try_cases Let_def probe_cleared sample_rejects_probe)
qed

text \<open>
  C3 at a frame of 23 zero bytes, whose decoding fails on the sync header. The handler
  answers with ERROR carrying code 3 and logs a warning, but \<^verbatim>\<open>_handle_error\<close>, through
  which the answer is sent, logs at error severity in every case: the record of effects
  has an error-severity entry after the warning.
\<close>

theorem probe_frame_logged_at_error_severity:
  "trace (irq_handler sample_collab {IRQ_END_WRITE} (received probe_frame booted))
     = [MemWrite (probe_frame @ replicate 23 0),
        Decode probe_frame,
        Log Warning ''payload warning: {}'',
        Log Error ''Error {}: {}'',
        MemWrite (probe_frame @ frame ERROR 3 0 0 0),
        Sleep_us 50]
   \<and> rsp_window sample_collab
        (mem (irq_handler sample_collab {IRQ_END_WRITE} (received probe_frame booted)))
       = frame ERROR 3 0 0 0"
proof -
  let ?c = "clear_response sample_collab (received probe_frame booted)"
  have s: "slice_assign (probe_frame @ replicate 23 0) 23 46 (frame ERROR 3 0 0 0)
             = probe_frame @ frame ERROR 3 0 0 0"
    by (simp add: slice_assign_def Let_def)
  have w: "rsp_window sample_collab (probe_frame @ frame ERROR 3 0 0 0) = frame ERROR 3 0 0 0"
    by (simp add: rsp_window_def slice_def)
  show ?thesis
    by (simp add: irq_handler_def Let_def probe_raises handle_error_def send_response_def
        probe_cleared s w)
qed

end
